theory Spec2Isabelle
  imports Main "HOL-Library.Word"
begin

unbundle bit_operations_syntax

section \<open>Machine types and raw memory\<close>

text \<open>
  The rollback netplay core of RMG (\<^verbatim>\<open>Source/RMG-Core/Emulation.cpp\<close>,
  \<^verbatim>\<open>Netplay.cpp\<close>, \<^verbatim>\<open>RollbackNetplay.cpp\<close>) is embedded function by function.
  Unsigned C integers are words, pointers are natural numbers with \<open>0\<close> for \<^verbatim>\<open>nullptr\<close>,
  and the memory behind a pointer is a function from byte offsets to bytes, as C pointer
  arithmetic sees it.
\<close>

type_synonym byte = "8 word"
type_synonym u16 = "16 word"
type_synonym u32 = "32 word"
type_synonym u64 = "64 word"
type_synonym ptr = nat
type_synonym mem = "nat \<Rightarrow> byte"

definition read_bytes :: "mem \<Rightarrow> nat \<Rightarrow> nat \<Rightarrow> byte list" where
  "read_bytes m off n = map m [off..<off + n]"

definition write_bytes :: "mem \<Rightarrow> nat \<Rightarrow> byte list \<Rightarrow> mem" where
  "write_bytes m off bs = (\<lambda>i. if off \<le> i \<and> i < off + length bs then bs ! (i - off) else m i)"

text \<open>\<open>mem_at m off\<close> is the memory seen through the pointer \<^verbatim>\<open>p + off\<close>.\<close>

definition mem_at :: "mem \<Rightarrow> nat \<Rightarrow> mem" where
  "mem_at m off = (\<lambda>i. m (off + i))"

text \<open>Little-endian object representation of a \<^verbatim>\<open>uint32_t\<close> and a \<^verbatim>\<open>uint16_t\<close>.\<close>

definition le32 :: "u32 \<Rightarrow> byte list" where
  "le32 w = [ucast w, ucast (drop_bit 8 w), ucast (drop_bit 16 w), ucast (drop_bit 24 w)]"

definition rd32 :: "mem \<Rightarrow> nat \<Rightarrow> u32" where
  "rd32 m off =
     ucast (m off) OR push_bit 8 (ucast (m (off + 1))) OR
     push_bit 16 (ucast (m (off + 2))) OR push_bit 24 (ucast (m (off + 3)))"

definition le16 :: "u16 \<Rightarrow> byte list" where
  "le16 w = [ucast w, ucast (drop_bit 8 w)]"

definition rd16 :: "mem \<Rightarrow> nat \<Rightarrow> u16" where
  "rd16 m off = ucast (m off) OR push_bit 8 (ucast (m (off + 1)))"

text \<open>Conversion of an unsigned size to a C \<^verbatim>\<open>int\<close> (32 bit, two's complement).\<close>

definition to_int :: "nat \<Rightarrow> int" where
  "to_int n = sint (word_of_nat n :: u32)"

text \<open>Conversion of a C \<^verbatim>\<open>int\<close> to \<^verbatim>\<open>size_t\<close> (64 bit): a negative value wraps.\<close>

definition int_to_size_t :: "int \<Rightarrow> nat" where
  "int_to_size_t i = nat (i mod 2 ^ 64)"

section \<open>Input encoder (Emulation.cpp)\<close>

definition ROLLBACK_INPUT_BYTES :: nat where
  "ROLLBACK_INPUT_BYTES = 32"

text \<open>
  \<^verbatim>\<open>struct ControllerInput\<close>: eight bytes without padding. The sticks are \<^verbatim>\<open>int8_t\<close>;
  the model keeps their bits.
\<close>

record ControllerInput =
  buttons :: u16
  stick_x :: byte
  stick_y :: byte
  trigger_r :: byte
  trigger_l :: byte
  reserved0 :: byte
  reserved1 :: byte

definition sizeof_ControllerInput :: nat where
  "sizeof_ControllerInput = 8"

definition ControllerInput_zero :: ControllerInput where
  "ControllerInput_zero =
     \<lparr>buttons = 0, stick_x = 0, stick_y = 0, trigger_r = 0, trigger_l = 0,
      reserved0 = 0, reserved1 = 0\<rparr>"

definition ControllerInput_bytes :: "ControllerInput \<Rightarrow> byte list" where
  "ControllerInput_bytes c =
     le16 (buttons c) @ [stick_x c, stick_y c, trigger_r c, trigger_l c, reserved0 c, reserved1 c]"

definition ControllerInput_of_mem :: "mem \<Rightarrow> nat \<Rightarrow> ControllerInput" where
  "ControllerInput_of_mem m off =
     \<lparr>buttons = rd16 m off, stick_x = m (off + 2), stick_y = m (off + 3),
      trigger_r = m (off + 4), trigger_l = m (off + 5),
      reserved0 = m (off + 6), reserved1 = m (off + 7)\<rparr>"

definition BTN_A :: u16 where "BTN_A = push_bit 0 1"
definition BTN_B :: u16 where "BTN_B = push_bit 1 1"
definition BTN_Z :: u16 where "BTN_Z = push_bit 2 1"
definition BTN_START :: u16 where "BTN_START = push_bit 3 1"
definition BTN_DPAD_UP :: u16 where "BTN_DPAD_UP = push_bit 4 1"
definition BTN_DPAD_DOWN :: u16 where "BTN_DPAD_DOWN = push_bit 5 1"
definition BTN_DPAD_LEFT :: u16 where "BTN_DPAD_LEFT = push_bit 6 1"
definition BTN_DPAD_RIGHT :: u16 where "BTN_DPAD_RIGHT = push_bit 7 1"
definition BTN_SHOULDER_L :: u16 where "BTN_SHOULDER_L = push_bit 8 1"
definition BTN_SHOULDER_R :: u16 where "BTN_SHOULDER_R = push_bit 9 1"
definition BTN_C_UP :: u16 where "BTN_C_UP = push_bit 10 1"
definition BTN_C_DOWN :: u16 where "BTN_C_DOWN = push_bit 11 1"
definition BTN_C_LEFT :: u16 where "BTN_C_LEFT = push_bit 12 1"
definition BTN_C_RIGHT :: u16 where "BTN_C_RIGHT = push_bit 13 1"

text \<open>
  \<^verbatim>\<open>m64p::Input\<close>: four function pointers, each possibly null (the variable is
  initialised to \<^verbatim>\<open>{0}\<close>). A reader returns its \<^verbatim>\<open>bool\<close> result with the values it
  wrote to its out-parameters. The two setters only act on the emulator, so the model
  records whether the pointer is set and logs each call.
\<close>

record Input_api =
  GetStatus :: "(int \<Rightarrow> bool \<times> int) option"
  ReadController :: "(int \<Rightarrow> bool \<times> u32 \<times> byte \<times> byte) option"
  SetButtonState :: bool
  SetAxisValue :: bool

datatype input_call =
  SetButtonState_call int u32
| SetAxisValue_call int int byte

text \<open>One statement \<^verbatim>\<open>if (c) acc |= m;\<close>.\<close>

definition set_if :: "bool \<Rightarrow> 'a::len word \<Rightarrow> 'a word \<Rightarrow> 'a word" where
  "set_if c m acc = (if c then acc OR m else acc)"

text \<open>
  The fourteen statements of \<^verbatim>\<open>GetControllerInputs\<close> that map the core's button word
  to \<^verbatim>\<open>input.buttons\<close>, starting from 0; the first statement is the innermost.
\<close>

definition map_native_buttons :: "u32 \<Rightarrow> u16" where
  "map_native_buttons b =
     (set_if (b AND 0x2000 \<noteq> 0) BTN_C_UP
     (set_if (b AND 0x1000 \<noteq> 0) BTN_C_DOWN
     (set_if (b AND 0x0800 \<noteq> 0) BTN_C_LEFT
     (set_if (b AND 0x0400 \<noteq> 0) BTN_C_RIGHT
     (set_if (b AND 0x0200 \<noteq> 0) BTN_SHOULDER_L
     (set_if (b AND 0x0100 \<noteq> 0) BTN_SHOULDER_R
     (set_if (b AND 0x0080 \<noteq> 0) BTN_A
     (set_if (b AND 0x0040 \<noteq> 0) BTN_B
     (set_if (b AND 0x0020 \<noteq> 0) BTN_Z
     (set_if (b AND 0x0010 \<noteq> 0) BTN_START
     (set_if (b AND 0x0008 \<noteq> 0) BTN_DPAD_UP
     (set_if (b AND 0x0004 \<noteq> 0) BTN_DPAD_DOWN
     (set_if (b AND 0x0002 \<noteq> 0) BTN_DPAD_LEFT
     (set_if (b AND 0x0001 \<noteq> 0) BTN_DPAD_RIGHT 0))))))))))))))"

text \<open>The fourteen statements of \<^verbatim>\<open>ApplyControllerInputs\<close> that map back.\<close>

definition map_canonical_buttons :: "u16 \<Rightarrow> u32" where
  "map_canonical_buttons b =
     (set_if (b AND BTN_C_UP \<noteq> 0) 0x2000
     (set_if (b AND BTN_C_DOWN \<noteq> 0) 0x1000
     (set_if (b AND BTN_C_LEFT \<noteq> 0) 0x0800
     (set_if (b AND BTN_C_RIGHT \<noteq> 0) 0x0400
     (set_if (b AND BTN_SHOULDER_L \<noteq> 0) 0x0200
     (set_if (b AND BTN_SHOULDER_R \<noteq> 0) 0x0100
     (set_if (b AND BTN_A \<noteq> 0) 0x0080
     (set_if (b AND BTN_B \<noteq> 0) 0x0040
     (set_if (b AND BTN_Z \<noteq> 0) 0x0020
     (set_if (b AND BTN_START \<noteq> 0) 0x0010
     (set_if (b AND BTN_DPAD_UP \<noteq> 0) 0x0008
     (set_if (b AND BTN_DPAD_DOWN \<noteq> 0) 0x0004
     (set_if (b AND BTN_DPAD_LEFT \<noteq> 0) 0x0002
     (set_if (b AND BTN_DPAD_RIGHT \<noteq> 0) 0x0001 0))))))))))))))"

text \<open>
  The record \<^verbatim>\<open>GetControllerInputs\<close> builds before its \<^verbatim>\<open>memcpy\<close>: all zero unless
  the controller is connected and can be read.
\<close>

definition read_local_input :: "Input_api \<Rightarrow> int \<Rightarrow> ControllerInput" where
  "read_local_input api playerIndex =
     (case GetStatus api of
        None \<Rightarrow> ControllerInput_zero
      | Some get_status \<Rightarrow>
          (case get_status (playerIndex + 1) of (ok, controllerConnected) \<Rightarrow>
             if \<not> (ok \<and> controllerConnected \<noteq> 0) then ControllerInput_zero
             else (case ReadController api of
                None \<Rightarrow> ControllerInput_zero
              | Some read_controller \<Rightarrow>
                  (case read_controller (playerIndex + 1) of (ok', b, x_axis, y_axis) \<Rightarrow>
                     if \<not> ok' then ControllerInput_zero
                     else ControllerInput_zero
                       \<lparr>buttons := map_native_buttons b,
                        stick_x := x_axis,
                        stick_y := y_axis,
                        trigger_l := (if b AND 0x0200 \<noteq> 0 then 255 else 0),
                        trigger_r := (if b AND 0x0100 \<noteq> 0 then 255 else 0)\<rparr>))))"

text \<open>
  \<^verbatim>\<open>GetControllerInputs(inputData)\<close>: \<open>None\<close> is the null pointer, for which nothing
  happens. \<open>playerIndex\<close> is the value of \<^verbatim>\<open>CoreGetNetplayPlayerIndex()\<close>, never negative.
  Only \<^verbatim>\<open>sizeof(ControllerInput)\<close> bytes of the player's 32-byte slot are written.
\<close>

definition GetControllerInputs :: "Input_api \<Rightarrow> int \<Rightarrow> mem option \<Rightarrow> mem option" where
  "GetControllerInputs api playerIndex inputData =
     (case inputData of
        None \<Rightarrow> None
      | Some m \<Rightarrow>
          Some (write_bytes m (nat playerIndex * ROLLBACK_INPUT_BYTES)
                  (ControllerInput_bytes (read_local_input api playerIndex))))"

section \<open>Buffer pool (Netplay.cpp)\<close>

record StateBufferPool =
  m_freeBuffers :: "ptr list"
  m_usedBuffers :: "ptr list"
  m_bufferSize :: nat
  m_maxBuffers :: nat

text \<open>
  The constructor pushes the result of one \<^verbatim>\<open>malloc\<close> on the free list without testing it.
  \<open>malloc_ret\<close> is the pointer that \<^verbatim>\<open>malloc\<close> returns when it is called, 0 when it fails.
\<close>

definition StateBufferPool_new :: "ptr \<Rightarrow> nat \<Rightarrow> nat \<Rightarrow> StateBufferPool" where
  "StateBufferPool_new malloc_ret bufferSize maxBuffers =
     \<lparr>m_freeBuffers = [malloc_ret], m_usedBuffers = [],
      m_bufferSize = bufferSize, m_maxBuffers = maxBuffers\<rparr>"

definition getBuffer :: "ptr \<Rightarrow> StateBufferPool \<Rightarrow> ptr \<times> StateBufferPool" where
  "getBuffer malloc_ret pool =
     (if m_freeBuffers pool \<noteq> [] then
        (let buffer = last (m_freeBuffers pool)
         in (buffer, pool\<lparr>m_freeBuffers := butlast (m_freeBuffers pool),
                           m_usedBuffers := m_usedBuffers pool @ [buffer]\<rparr>))
      else if length (m_usedBuffers pool) < m_maxBuffers pool then
        (if malloc_ret \<noteq> 0
         then (malloc_ret, pool\<lparr>m_usedBuffers := m_usedBuffers pool @ [malloc_ret]\<rparr>)
         else (0, pool))
      else (0, pool))"

definition releaseBuffer :: "ptr \<Rightarrow> StateBufferPool \<Rightarrow> StateBufferPool" where
  "releaseBuffer buffer pool =
     (if buffer = 0 then pool
      else if buffer \<in> set (m_usedBuffers pool) then
        pool\<lparr>m_freeBuffers := m_freeBuffers pool @ [buffer],
             m_usedBuffers := remove1 buffer (m_usedBuffers pool)\<rparr>
      else pool)"

definition getBufferSize :: "StateBufferPool \<Rightarrow> nat" where
  "getBufferSize pool = m_bufferSize pool"

section \<open>State store (Netplay.cpp)\<close>

record StateMetrics =
  totalSaveTimeNs :: u64
  totalLoadTimeNs :: u64
  saveCount :: u32
  loadCount :: u32
  totalUncompressedSize :: u64
  totalCompressedSize :: u64

definition StateMetrics_reset :: "StateMetrics \<Rightarrow> StateMetrics" where
  "StateMetrics_reset m =
     \<lparr>totalSaveTimeNs = 0, totalLoadTimeNs = 0, saveCount = 0, loadCount = 0,
      totalUncompressedSize = 0, totalCompressedSize = 0\<rparr>"

text \<open>
  \<^verbatim>\<open>logMetrics\<close> formats floating-point averages into a text; a message of the model
  carries the integers the text is computed from.
\<close>

datatype callback_message =
  StateSaveMetrics u64 u32 u64 u64
| StateLoadMetrics u64 u32

definition logMetrics :: "StateMetrics \<Rightarrow> callback_message list" where
  "logMetrics m =
     (if saveCount m > 0
      then [StateSaveMetrics (totalSaveTimeNs m) (saveCount m)
              (totalUncompressedSize m) (totalCompressedSize m)]
      else []) @
     (if loadCount m > 0 then [StateLoadMetrics (totalLoadTimeNs m) (loadCount m)] else [])"

record RollbackStateHeader =
  magic :: u32
  version :: u32
  frame :: u32
  uncompressedSize :: u32
  compressedSize :: u32
  randState :: u32
  inputSequence :: u32
  reserved_0 :: u32
  reserved_1 :: u32

definition sizeof_RollbackStateHeader :: nat where
  "sizeof_RollbackStateHeader = 36"

definition ROLLBACK_STATE_MAGIC :: u32 where
  "ROLLBACK_STATE_MAGIC = 0x52424B53"

definition ROLLBACK_STATE_VERSION :: u32 where
  "ROLLBACK_STATE_VERSION = 1"

definition RollbackStateHeader_bytes :: "RollbackStateHeader \<Rightarrow> byte list" where
  "RollbackStateHeader_bytes h =
     le32 (magic h) @ le32 (version h) @ le32 (frame h) @ le32 (uncompressedSize h) @
     le32 (compressedSize h) @ le32 (randState h) @ le32 (inputSequence h) @
     le32 (reserved_0 h) @ le32 (reserved_1 h)"

definition RollbackStateHeader_of_mem :: "mem \<Rightarrow> RollbackStateHeader" where
  "RollbackStateHeader_of_mem m =
     \<lparr>magic = rd32 m 0, version = rd32 m 4, frame = rd32 m 8, uncompressedSize = rd32 m 12,
      compressedSize = rd32 m 16, randState = rd32 m 20, inputSequence = rd32 m 24,
      reserved_0 = rd32 m 28, reserved_1 = rd32 m 32\<rparr>"

text \<open>
  What the store calls outside the repository: \<^verbatim>\<open>malloc\<close>, the clock, the emulator core
  (\<^verbatim>\<open>m64p::Core.DoCommand\<close>) and zlib.
  \<^item> \<open>state_save n m\<close> is \<^verbatim>\<open>M64CMD_STATE_SAVE\<close> with integer parameter \<open>n\<close> on the memory
    \<open>m\<close> behind its pointer: whether it returned \<^verbatim>\<open>M64ERR_SUCCESS\<close>, and the memory after.
  \<^item> \<open>state_load n m\<close> is \<^verbatim>\<open>M64CMD_STATE_LOAD\<close>: whether it returned \<^verbatim>\<open>M64ERR_SUCCESS\<close>.
  \<^item> \<open>rng_query\<close> is the seed that the state query stores, \<open>None\<close> when the query fails.
  \<^item> \<open>deflate_stream bs\<close> is the complete zlib stream of \<open>bs\<close> at level 1;
    \<open>inflate_stream bs\<close> tells whether \<open>bs\<close> holds a complete valid stream, with the bytes
    it decodes; \<open>crc32 bs\<close> is \<^verbatim>\<open>crc32(0, bs, length)\<close>.
\<close>

record host =
  malloc_ret :: ptr
  elapsed_ns :: u64
  state_save :: "int \<Rightarrow> mem \<Rightarrow> bool \<times> mem"
  state_load :: "int \<Rightarrow> mem \<Rightarrow> bool"
  rng_query :: "u32 option"
  deflateInit_ok :: bool
  deflate_stream :: "byte list \<Rightarrow> byte list"
  inflateInit_ok :: bool
  inflate_stream :: "byte list \<Rightarrow> bool \<times> byte list"
  crc32 :: "byte list \<Rightarrow> u32"

datatype m64p_command =
  M64CMD_STATE_SAVE int
| M64CMD_STATE_LOAD int
| M64CMD_CORE_STATE_QUERY int

definition M64CORE_RANDOM_SEED :: int where
  "M64CORE_RANDOM_SEED = 13"

text \<open>The conversion of an \<^verbatim>\<open>int\<close> to zlib's 32-bit \<^verbatim>\<open>uInt\<close>.\<close>

definition uInt :: "int \<Rightarrow> nat" where
  "uInt i = nat (i mod 2 ^ 32)"

definition CalculateChecksum :: "host \<Rightarrow> mem \<Rightarrow> nat \<Rightarrow> u32" where
  "CalculateChecksum h data sz = crc32 h (read_bytes data 0 (sz mod 2 ^ 32))"

text \<open>
  \<^verbatim>\<open>CompressData(src, srcLen, dst, &dstLen)\<close>: the result, the bytes written at \<^verbatim>\<open>dst\<close> and
  the final \<^verbatim>\<open>*dstLen\<close>. \<^verbatim>\<open>deflate\<close> with \<^verbatim>\<open>Z_FINISH\<close> returns \<^verbatim>\<open>Z_STREAM_END\<close> only
  when the whole stream fits in \<^verbatim>\<open>avail_out\<close>; otherwise it fills the output and returns
  another code.
\<close>

definition CompressData :: "host \<Rightarrow> mem \<Rightarrow> int \<Rightarrow> int \<Rightarrow> bool \<times> byte list \<times> int" where
  "CompressData h src srcLen dstLen =
     (if \<not> deflateInit_ok h then (False, [], dstLen)
      else
        (let avail_in = uInt srcLen;
             avail_out = uInt dstLen;
             out = deflate_stream h (read_bytes src 0 avail_in)
         in if length out \<le> avail_out then (True, out, int (length out))
            else (False, take avail_out out, dstLen)))"

text \<open>\<^verbatim>\<open>DecompressData(src, srcLen, dst, dstLen)\<close>: the result and the bytes written at \<^verbatim>\<open>dst\<close>.\<close>

definition DecompressData :: "host \<Rightarrow> mem \<Rightarrow> int \<Rightarrow> int \<Rightarrow> bool \<times> byte list" where
  "DecompressData h src srcLen dstLen =
     (if \<not> inflateInit_ok h then (False, [])
      else
        (let avail_in = uInt srcLen;
             avail_out = uInt dstLen;
             (valid, out) = inflate_stream h (read_bytes src 0 avail_in)
         in (valid \<and> length out \<le> avail_out, take avail_out out)))"

text \<open>
  The loop of \<^verbatim>\<open>SaveEmulatorState\<close> that finds the size of the state:
  \<^verbatim>\<open>for (size_t i = max; i > 0; i--) if (tempBuffer[i-1] != 0) { actual = i; break; }\<close>
  with \<^verbatim>\<open>actual\<close> initialised to \<^verbatim>\<open>max\<close>.
\<close>

fun scan_back :: "mem \<Rightarrow> nat \<Rightarrow> nat \<Rightarrow> nat" where
  "scan_back tempBuffer mx 0 = mx"
| "scan_back tempBuffer mx (Suc i) =
     (if tempBuffer i \<noteq> 0 then Suc i else scan_back tempBuffer mx i)"

definition actualUncompressedSize :: "mem \<Rightarrow> nat \<Rightarrow> nat" where
  "actualUncompressedSize tempBuffer maxUncompressedSize =
     scan_back tempBuffer maxUncompressedSize maxUncompressedSize"

section \<open>Rollback session (RollbackNetplay.cpp)\<close>

text \<open>
  \<^verbatim>\<open>avgRollbackFrames\<close> is a \<^verbatim>\<open>float\<close>; the model keeps the two integers whose
  quotient it is assigned.
\<close>

record RollbackMetrics =
  rollbackFrames :: int
  totalRollbacks :: int
  predictedFrames :: int
  maxRollbackFrames :: int
  avgRollbackFrames :: "int \<times> int"
  pingMs :: int
  remoteFrameAdvantage :: int

definition RollbackMetrics_Reset :: "RollbackMetrics \<Rightarrow> RollbackMetrics" where
  "RollbackMetrics_Reset m =
     \<lparr>rollbackFrames = 0, totalRollbacks = 0, predictedFrames = 0, maxRollbackFrames = 0,
      avgRollbackFrames = (0, 1), pingMs = 0, remoteFrameAdvantage = 0\<rparr>"

record RollbackNetplayImpl =
  ggpoSession :: ptr
  localPlayer :: int
  maxPlayers :: int
  initialized :: bool
  currentFrame :: int
  localPlayerHandle :: int
  callbacksSet :: bool
  currentInputSequence :: u32
  lastSavedFrameInputSequence :: u32
  rollbackJustOccurred :: bool
  metrics :: RollbackMetrics

text \<open>The constructor. The player handles are uninitialised in C; the model starts them at 0.\<close>

definition RollbackNetplayImpl_new :: RollbackNetplayImpl where
  "RollbackNetplayImpl_new =
     \<lparr>ggpoSession = 0, localPlayer = 0, maxPlayers = 0, initialized = False, currentFrame = 0,
      localPlayerHandle = 0, callbacksSet = False,
      currentInputSequence = 0, lastSavedFrameInputSequence = 0,
      rollbackJustOccurred = False,
      metrics = \<lparr>rollbackFrames = 0, totalRollbacks = 0, predictedFrames = 0,
                 maxRollbackFrames = 0, avgRollbackFrames = (0, 1), pingMs = 0,
                 remoteFrameAdvantage = 0\<rparr>\<rparr>"

text \<open>
  The GGPO library (\<^verbatim>\<open>ggponet.h\<close>) is outside the repository. Its error code is either
  \<^verbatim>\<open>GGPO_OK\<close> or something else, and its events are the codes of \<^verbatim>\<open>GGPOEventCode\<close>, the
  time-sync event with its \<^verbatim>\<open>frames_ahead\<close>.
\<close>

datatype GGPOErrorCode = GGPO_OK | GGPO_ERRORCODE int

datatype GGPOEvent =
  GGPO_EVENTCODE_CONNECTED_TO_PEER
| GGPO_EVENTCODE_SYNCHRONIZING_WITH_PEER
| GGPO_EVENTCODE_SYNCHRONIZED_WITH_PEER
| GGPO_EVENTCODE_RUNNING
| GGPO_EVENTCODE_DISCONNECTED_FROM_PEER
| GGPO_EVENTCODE_TIMESYNC int
| GGPO_EVENTCODE_CONNECTION_INTERRUPTED
| GGPO_EVENTCODE_CONNECTION_RESUMED

text \<open>
  What one call into GGPO answers: the result of each function, the session pointer that
  \<^verbatim>\<open>ggpo_start_session\<close> stores, the handle \<^verbatim>\<open>ggpo_add_player\<close> stores for a player number,
  and for \<^verbatim>\<open>ggpo_get_network_stats\<close> the pair of \<^verbatim>\<open>network.ping\<close> and
  \<^verbatim>\<open>timesync.remote_frames_behind\<close>, \<open>None\<close> when the result is not \<^verbatim>\<open>GGPO_OK\<close>.
\<close>

record ggpo =
  start_session_result :: GGPOErrorCode
  new_session :: ptr
  add_player_result :: "int \<Rightarrow> GGPOErrorCode"
  add_player_handle :: "int \<Rightarrow> int"
  set_frame_delay_result :: GGPOErrorCode
  add_local_input_result :: GGPOErrorCode
  network_stats :: "(int \<times> int) option"

section \<open>The state of the process\<close>

text \<open>
  The file-level variables of the three source files, the objects and buffers on the heap
  (\<open>impls s p\<close> is the object that a \<^verbatim>\<open>RollbackNetplayImpl*\<close> of value \<open>p\<close> points to,
  \<open>heap s p\<close> the bytes behind a buffer pointer \<open>p\<close>), and what the code sends out: the error of \<^verbatim>\<open>CoreSetError\<close>, the messages of
  \<^verbatim>\<open>CoreAddCallbackMessage\<close>, the commands sent to the emulator core and the calls of the
  input setters.
\<close>

record process =
  l_HasInitNetplay :: bool
  l_HasInitRollbackNetplay :: bool
  l_RollbackNetplay :: ptr
  l_RollbackLocalPlayer :: int
  l_RollbackMaxPlayers :: int
  g_stateMetrics :: StateMetrics
  g_stateBufferPool :: StateBufferPool
  fallbackRng :: u32
  g_currentInputSequence :: u32
  g_lastInputs :: mem
  instancePtr :: ptr
  impls :: "ptr \<Rightarrow> RollbackNetplayImpl"
  heap :: "ptr \<Rightarrow> mem"
  core_error :: string
  callback_messages :: "callback_message list"
  emu_commands :: "m64p_command list"
  input_calls :: "input_call list"

text \<open>The process at start-up: every static at its initialiser, the pool just constructed.\<close>

definition process_start :: "ptr \<Rightarrow> process" where
  "process_start pool_malloc =
     \<lparr>l_HasInitNetplay = False, l_HasInitRollbackNetplay = False, l_RollbackNetplay = 0,
      l_RollbackLocalPlayer = 0, l_RollbackMaxPlayers = 0,
      g_stateMetrics = \<lparr>totalSaveTimeNs = 0, totalLoadTimeNs = 0, saveCount = 0, loadCount = 0,
                        totalUncompressedSize = 0, totalCompressedSize = 0\<rparr>,
      g_stateBufferPool = StateBufferPool_new pool_malloc (8 * 1024 * 1024) 4,
      fallbackRng = 0, g_currentInputSequence = 0, g_lastInputs = (\<lambda>_. 0),
      instancePtr = 0, impls = (\<lambda>_. RollbackNetplayImpl_new), heap = (\<lambda>_ _. 0),
      core_error = [], callback_messages = [], emu_commands = [], input_calls = []\<rparr>"

definition CoreSetError :: "string \<Rightarrow> process \<Rightarrow> process" where
  "CoreSetError msg s = s\<lparr>core_error := msg\<rparr>"

section \<open>Applying inputs (Emulation.cpp)\<close>

definition ApplyControllerInputs :: "Input_api \<Rightarrow> mem option \<Rightarrow> int \<Rightarrow> process \<Rightarrow> process" where
  "ApplyControllerInputs api inputData playerIndex s =
     (case inputData of
        None \<Rightarrow> s
      | Some m \<Rightarrow>
          if playerIndex < 0 \<or> playerIndex \<ge> 4 then s
          else
            (let input = ControllerInput_of_mem m (nat playerIndex * ROLLBACK_INPUT_BYTES);
                 b = map_canonical_buttons (buttons input);
                 button_calls =
                   (if SetButtonState api then [SetButtonState_call (playerIndex + 1) b] else []);
                 axis_calls =
                   (if SetAxisValue api
                    then [SetAxisValue_call (playerIndex + 1) 0 (stick_x input),
                          SetAxisValue_call (playerIndex + 1) 1 (stick_y input)]
                    else [])
             in s\<lparr>input_calls := input_calls s @ button_calls @ axis_calls,
                  g_lastInputs := write_bytes (g_lastInputs s)
                                    (nat playerIndex * ROLLBACK_INPUT_BYTES)
                                    (ControllerInput_bytes input)\<rparr>))"

section \<open>Saving and loading the emulator state (Netplay.cpp)\<close>

text \<open>The destructor of the \<^verbatim>\<open>ScopedTimer\<close> of each function adds the elapsed time.\<close>

definition stop_save_timer :: "host \<Rightarrow> process \<Rightarrow> process" where
  "stop_save_timer h s =
     s\<lparr>g_stateMetrics := (g_stateMetrics s)
          \<lparr>totalSaveTimeNs := totalSaveTimeNs (g_stateMetrics s) + elapsed_ns h\<rparr>\<rparr>"

definition stop_load_timer :: "host \<Rightarrow> process \<Rightarrow> process" where
  "stop_load_timer h s =
     s\<lparr>g_stateMetrics := (g_stateMetrics s)
          \<lparr>totalLoadTimeNs := totalLoadTimeNs (g_stateMetrics s) + elapsed_ns h\<rparr>\<rparr>"

text \<open>The first statements of \<^verbatim>\<open>SaveEmulatorState\<close>: count the save, log and reset every 100.\<close>

definition count_save :: "process \<Rightarrow> process" where
  "count_save s =
     (let m = (g_stateMetrics s)\<lparr>saveCount := saveCount (g_stateMetrics s) + 1\<rparr>
      in if saveCount m mod 100 = 0
         then s\<lparr>callback_messages := callback_messages s @ logMetrics m,
                g_stateMetrics := StateMetrics_reset m\<rparr>
         else s\<lparr>g_stateMetrics := m\<rparr>)"

definition GetEmulatorRngState :: "host \<Rightarrow> process \<Rightarrow> u32 \<times> process" where
  "GetEmulatorRngState h s =
     (let s1 = s\<lparr>emu_commands := emu_commands s @ [M64CMD_CORE_STATE_QUERY M64CORE_RANDOM_SEED]\<rparr>
      in case rng_query h of
           Some rngState \<Rightarrow> (rngState, s1)
         | None \<Rightarrow> (fallbackRng s1 + 1, s1\<lparr>fallbackRng := fallbackRng s1 + 1\<rparr>))"

text \<open>\<open>mem_put m off m'\<close>: the memory \<open>m\<close> after the bytes from \<open>off\<close> on became \<open>m'\<close>.\<close>

definition mem_put :: "mem \<Rightarrow> nat \<Rightarrow> mem \<Rightarrow> mem" where
  "mem_put m off m' = (\<lambda>i. if i < off then m i else m' (i - off))"

text \<open>
  \<^verbatim>\<open>getBufferSize() - sizeof(RollbackStateHeader) - 1024\<close> in \<^verbatim>\<open>size_t\<close>: it wraps for a
  buffer smaller than 1060 bytes.
\<close>

definition maxUncompressedSize :: "StateBufferPool \<Rightarrow> nat" where
  "maxUncompressedSize pool =
     (getBufferSize pool + 2 ^ 64 - sizeof_RollbackStateHeader - 1024) mod 2 ^ 64"

text \<open>
  \<^verbatim>\<open>SaveEmulatorState(&buffer, &len, &checksum, frame)\<close>: \<open>None\<close> when it returns false,
  else the three out-parameters. The checksum is an \<^verbatim>\<open>int\<close> in C; the model keeps its bits.
\<close>

definition SaveEmulatorState :: "host \<Rightarrow> int \<Rightarrow> process \<Rightarrow> (ptr \<times> int \<times> u32) option \<times> process" where
  "SaveEmulatorState h frm s =
     (let s1 = count_save s;
          (stateBuffer, pool1) = getBuffer (malloc_ret h) (g_stateBufferPool s1);
          s2 = s1\<lparr>g_stateBufferPool := pool1\<rparr>
      in if stateBuffer = 0
         then (None, stop_save_timer h (CoreSetError ''Failed to obtain state buffer from pool'' s2))
         else
           (let mx = maxUncompressedSize pool1;
                data_off = sizeof_RollbackStateHeader + 1024;
                (save_ok, saved) = state_save h (to_int mx) (mem_at (heap s2 stateBuffer) data_off);
                s3 = s2\<lparr>heap := (heap s2)(stateBuffer := mem_put (heap s2 stateBuffer) data_off saved),
                        emu_commands := emu_commands s2 @ [M64CMD_STATE_SAVE (to_int mx)]\<rparr>
            in if \<not> save_ok
               then (None, stop_save_timer h (CoreSetError ''Failed to save emulator state''
                       (s3\<lparr>g_stateBufferPool := releaseBuffer stateBuffer (g_stateBufferPool s3)\<rparr>)))
               else
                 (let tempBuffer = mem_at (heap s3 stateBuffer) data_off;
                      actual = actualUncompressedSize tempBuffer mx;
                      s4 = s3\<lparr>g_stateMetrics := (g_stateMetrics s3)
                              \<lparr>totalUncompressedSize :=
                                 totalUncompressedSize (g_stateMetrics s3) + word_of_nat actual\<rparr>\<rparr>;
                      (compress_ok, written, compressedSz) =
                         CompressData h tempBuffer (to_int actual) 1024;
                      s5 = s4\<lparr>heap := (heap s4)(stateBuffer :=
                              write_bytes (heap s4 stateBuffer) sizeof_RollbackStateHeader written)\<rparr>
                  in if \<not> compress_ok
                     then (None, stop_save_timer h (CoreSetError ''Failed to compress state data''
                             (s5\<lparr>g_stateBufferPool := releaseBuffer stateBuffer (g_stateBufferPool s5)\<rparr>)))
                     else
                       (let s6 = s5\<lparr>g_stateMetrics := (g_stateMetrics s5)
                                    \<lparr>totalCompressedSize :=
                                       totalCompressedSize (g_stateMetrics s5) + word_of_int compressedSz\<rparr>\<rparr>;
                            (rng, s7) = GetEmulatorRngState h s6;
                            header = \<lparr>magic = ROLLBACK_STATE_MAGIC,
                                      version = ROLLBACK_STATE_VERSION,
                                      frame = word_of_int frm,
                                      uncompressedSize = word_of_nat actual,
                                      compressedSize = word_of_int compressedSz,
                                      randState = rng,
                                      inputSequence = g_currentInputSequence s7,
                                      reserved_0 = 0, reserved_1 = 0\<rparr>;
                            s8 = s7\<lparr>heap := (heap s7)(stateBuffer :=
                                    write_bytes (heap s7 stateBuffer) 0 (RollbackStateHeader_bytes header))\<rparr>;
                            checksum = CalculateChecksum h (mem_at (heap s8 stateBuffer) data_off) actual
                        in (Some (stateBuffer, int sizeof_RollbackStateHeader + compressedSz, checksum),
                            stop_save_timer h s8)))))"

text \<open>
  \<^verbatim>\<open>LoadEmulatorState(buffer, len)\<close>. The comparisons of \<^verbatim>\<open>len\<close> with a \<^verbatim>\<open>size_t\<close> convert
  \<^verbatim>\<open>len\<close> to \<^verbatim>\<open>size_t\<close>. Every \<^verbatim>\<open>header->field\<close> reads the buffer at the moment of the
  access.
\<close>

definition LoadEmulatorState :: "host \<Rightarrow> ptr \<Rightarrow> int \<Rightarrow> process \<Rightarrow> bool \<times> process" where
  "LoadEmulatorState h buffer len s =
     (let s1 = s\<lparr>g_stateMetrics := (g_stateMetrics s)
                  \<lparr>loadCount := loadCount (g_stateMetrics s) + 1\<rparr>\<rparr>
      in if buffer = 0 \<or> int_to_size_t len \<le> sizeof_RollbackStateHeader
         then (False, stop_load_timer h (CoreSetError ''Invalid state buffer or size'' s1))
         else if magic (RollbackStateHeader_of_mem (heap s1 buffer)) \<noteq> ROLLBACK_STATE_MAGIC
         then (False, stop_load_timer h
                 (CoreSetError ''Invalid state format (wrong magic number)'' s1))
         else if version (RollbackStateHeader_of_mem (heap s1 buffer)) \<noteq> ROLLBACK_STATE_VERSION
         then (False, stop_load_timer h (CoreSetError ''Unsupported state version'' s1))
         else if unat (compressedSize (RollbackStateHeader_of_mem (heap s1 buffer)))
                   + sizeof_RollbackStateHeader > int_to_size_t len
         then (False, stop_load_timer h
                 (CoreSetError ''State buffer is smaller than expected'' s1))
         else
           (let (uncompressedBuffer, pool1) = getBuffer (malloc_ret h) (g_stateBufferPool s1);
                s2 = s1\<lparr>g_stateBufferPool := pool1\<rparr>
            in if uncompressedBuffer = 0
               then (False, stop_load_timer h
                       (CoreSetError ''Failed to obtain buffer from pool for decompression'' s2))
               else
                 (let header = RollbackStateHeader_of_mem (heap s2 buffer);
                      uncompressedSz = sint (uncompressedSize header);
                      (decompress_ok, written) =
                         DecompressData h (mem_at (heap s2 buffer) sizeof_RollbackStateHeader)
                           (sint (compressedSize header)) uncompressedSz;
                      s3 = s2\<lparr>heap := (heap s2)(uncompressedBuffer :=
                              write_bytes (heap s2 uncompressedBuffer) 0 written)\<rparr>
                  in if \<not> decompress_ok
                     then (False, stop_load_timer h (CoreSetError ''Failed to decompress state data''
                             (s3\<lparr>g_stateBufferPool :=
                                   releaseBuffer uncompressedBuffer (g_stateBufferPool s3)\<rparr>)))
                     else
                       (let param = sint (uncompressedSize (RollbackStateHeader_of_mem (heap s3 buffer)));
                            load_ok = state_load h param (heap s3 uncompressedBuffer);
                            s4 = s3\<lparr>emu_commands := emu_commands s3 @ [M64CMD_STATE_LOAD param]\<rparr>
                        in if \<not> load_ok
                           then (False, stop_load_timer h (CoreSetError ''Failed to load emulator state''
                                   (s4\<lparr>g_stateBufferPool :=
                                         releaseBuffer uncompressedBuffer (g_stateBufferPool s4)\<rparr>)))
                           else (True, stop_load_timer h
                                   (s4\<lparr>g_currentInputSequence :=
                                         inputSequence (RollbackStateHeader_of_mem (heap s4 buffer)),
                                       g_stateBufferPool :=
                                         releaseBuffer uncompressedBuffer (g_stateBufferPool s4)\<rparr>))))))"

definition FreeEmulatorState :: "ptr \<Rightarrow> process \<Rightarrow> process" where
  "FreeEmulatorState buffer s =
     s\<lparr>g_stateBufferPool := releaseBuffer buffer (g_stateBufferPool s)\<rparr>"

section \<open>Session lifecycle and events (RollbackNetplay.cpp)\<close>

text \<open>\<^verbatim>\<open>std::to_string\<close> on an \<^verbatim>\<open>int\<close>.\<close>

function string_of_nat :: "nat \<Rightarrow> string" where
  "string_of_nat n =
     (if n < 10 then [char_of (48 + n)]
      else string_of_nat (n div 10) @ [char_of (48 + n mod 10)])"
  by pat_completeness auto
termination
  by (relation "measure id") auto

definition to_string :: "int \<Rightarrow> string" where
  "to_string i = (if i < 0 then CHR ''-'' # string_of_nat (nat (- i)) else string_of_nat (nat i))"

text \<open>
  The loop of \<^verbatim>\<open>Initialize\<close> over the player numbers \<open>1 .. maxPlayers\<close>: it stops at the
  first player GGPO refuses and returns that number. Only the handle of the local player
  is kept in the model: the store of a remote player's handle into
  \<^verbatim>\<open>remotePlayerHandles[i]\<close> is left out, and with it the write past the end of that
  array (of \<^verbatim>\<open>GGPO_MAX_PLAYERS - 1\<close> elements) that the code makes for a remote fourth
  player.
\<close>

fun add_players :: "ggpo \<Rightarrow> int list \<Rightarrow> RollbackNetplayImpl \<Rightarrow> int option \<times> RollbackNetplayImpl" where
  "add_players g [] impl = (None, impl)"
| "add_players g (n # ns) impl =
     (let impl' = (if n = localPlayer impl
                   then impl\<lparr>localPlayerHandle := add_player_handle g n\<rparr> else impl)
      in if add_player_result g n \<noteq> GGPO_OK then (Some n, impl')
         else add_players g ns impl')"

text \<open>
  \<^verbatim>\<open>RollbackNetplayImpl::Initialize\<close> on the object at address \<open>this\<close>. The static
  \<^verbatim>\<open>instancePtr\<close> is the field of the process.
\<close>

definition Initialize ::
  "ggpo \<Rightarrow> ptr \<Rightarrow> string \<Rightarrow> int \<Rightarrow> int \<Rightarrow> int \<Rightarrow> int \<Rightarrow> process \<Rightarrow> bool \<times> process" where
  "Initialize g this address port player numPlayers frameDelay s =
     (if initialized (impls s this) then (True, s)
      else if instancePtr s \<noteq> 0
      then (False, CoreSetError ''RollbackNetplay: Another instance is already active'' s)
      else
        (let impl1 = (impls s this)\<lparr>localPlayer := player, maxPlayers := numPlayers\<rparr>;
             s1 = s\<lparr>instancePtr := this, impls := (impls s)(this := impl1)\<rparr>
         in if start_session_result g \<noteq> GGPO_OK
            then (False, (CoreSetError ''RollbackNetplay: Failed to start GGPO session'' s1)
                           \<lparr>instancePtr := 0\<rparr>)
            else
              (let impl2 = impl1\<lparr>ggpoSession := new_session g\<rparr>;
                   (failed, impl3) =
                      add_players g (map (\<lambda>i. int i + 1) [0..<nat (maxPlayers impl2)]) impl2
               in case failed of
                    Some n \<Rightarrow>
                      (False, (CoreSetError (''RollbackNetplay: Failed to add player '' @ to_string n) s1)
                                \<lparr>instancePtr := 0,
                                 impls := (impls s1)(this := impl3\<lparr>ggpoSession := 0\<rparr>)\<rparr>)
                  | None \<Rightarrow>
                      if set_frame_delay_result g \<noteq> GGPO_OK
                      then (False, (CoreSetError ''RollbackNetplay: Failed to set frame delay'' s1)
                                     \<lparr>instancePtr := 0,
                                      impls := (impls s1)(this := impl3\<lparr>ggpoSession := 0\<rparr>)\<rparr>)
                      else (True, s1\<lparr>impls := (impls s1)
                                      (this := impl3\<lparr>initialized := True, currentFrame := 0\<rparr>)\<rparr>))))"

definition Shutdown :: "ptr \<Rightarrow> process \<Rightarrow> process" where
  "Shutdown this s =
     (if initialized (impls s this) \<and> ggpoSession (impls s this) \<noteq> 0
      then s\<lparr>impls := (impls s)(this := (impls s this)
                \<lparr>ggpoSession := 0, initialized := False, currentFrame := 0\<rparr>),
             instancePtr := (if instancePtr s = this then 0 else instancePtr s)\<rparr>
      else s)"

definition SetCallbacks :: "ptr \<Rightarrow> process \<Rightarrow> process" where
  "SetCallbacks this s = s\<lparr>impls := (impls s)(this := (impls s this)\<lparr>callbacksSet := True\<rparr>)\<rparr>"

text \<open>
  \<^verbatim>\<open>RollbackNetplayImpl::AddLocalInput(input)\<close>; \<open>input\<close> is the memory behind the pointer
  handed to GGPO.
\<close>

definition AddLocalInput :: "ggpo \<Rightarrow> ptr \<Rightarrow> mem \<Rightarrow> process \<Rightarrow> bool \<times> process" where
  "AddLocalInput g this input s =
     (if \<not> initialized (impls s this) \<or> ggpoSession (impls s this) = 0 then (False, s)
      else
        (let s1 = s\<lparr>impls := (impls s)(this := (impls s this)
                      \<lparr>currentInputSequence := currentInputSequence (impls s this) + 1\<rparr>)\<rparr>;
             result = add_local_input_result g
         in (result = GGPO_OK, s1)))"

definition UpdateMetrics :: "ggpo \<Rightarrow> GGPOEvent \<Rightarrow> RollbackMetrics \<Rightarrow> RollbackMetrics" where
  "UpdateMetrics g event m =
     (let m1 = (case event of
                  GGPO_EVENTCODE_CONNECTED_TO_PEER \<Rightarrow> RollbackMetrics_Reset m
                | GGPO_EVENTCODE_DISCONNECTED_FROM_PEER \<Rightarrow> RollbackMetrics_Reset m
                | GGPO_EVENTCODE_TIMESYNC frames_ahead \<Rightarrow> m\<lparr>remoteFrameAdvantage := frames_ahead\<rparr>
                | _ \<Rightarrow> m)
      in case network_stats g of
           Some (ping, remote_frames_behind) \<Rightarrow>
             m1\<lparr>pingMs := ping, predictedFrames := remote_frames_behind\<rparr>
         | None \<Rightarrow> m1)"

definition INT_MAX :: int where
  "INT_MAX = 2 ^ 31 - 1"

text \<open>
  \<^verbatim>\<open>OnEvent_Callback(event)\<close>. The counters are C \<^verbatim>\<open>int\<close>s: an addition that would pass
  \<^verbatim>\<open>INT_MAX\<close> is undefined in C, and the model returns \<open>None\<close> for it.
\<close>

definition OnEvent_Callback :: "ggpo \<Rightarrow> GGPOEvent \<Rightarrow> process \<Rightarrow> process option" where
  "OnEvent_Callback g event s =
     (if instancePtr s = 0 then Some s
      else
        (let this = instancePtr s;
             impl = impls s this;
             m = UpdateMetrics g event (metrics impl);
             impl1 = impl\<lparr>metrics := m\<rparr>
         in case event of
              GGPO_EVENTCODE_TIMESYNC frames_ahead \<Rightarrow>
                if frames_ahead > 0 then
                  (if rollbackFrames m + frames_ahead > INT_MAX \<or> totalRollbacks m + 1 > INT_MAX
                   then None
                   else
                     (let m2 = m\<lparr>rollbackFrames := rollbackFrames m + frames_ahead,
                                 totalRollbacks := totalRollbacks m + 1\<rparr>;
                          m3 = (if frames_ahead > maxRollbackFrames m2
                                then m2\<lparr>maxRollbackFrames := frames_ahead\<rparr> else m2);
                          m4 = m3\<lparr>avgRollbackFrames := (rollbackFrames m3, totalRollbacks m3)\<rparr>
                      in Some (s\<lparr>impls := (impls s)(this :=
                                   impl1\<lparr>rollbackJustOccurred := True, metrics := m4\<rparr>)\<rparr>)))
                else Some (s\<lparr>impls := (impls s)(this := impl1)\<rparr>)
            | _ \<Rightarrow> Some (s\<lparr>impls := (impls s)(this := impl1)\<rparr>)))"

text \<open>A sequence of events, each with what GGPO answers while it is processed.\<close>

fun OnEvents :: "(ggpo \<times> GGPOEvent) list \<Rightarrow> process \<Rightarrow> process option" where
  "OnEvents [] s = Some s"
| "OnEvents ((g, event) # rest) s =
     (case OnEvent_Callback g event s of None \<Rightarrow> None | Some s' \<Rightarrow> OnEvents rest s')"

definition is_reset_event :: "GGPOEvent \<Rightarrow> bool" where
  "is_reset_event event =
     (event = GGPO_EVENTCODE_CONNECTED_TO_PEER \<or> event = GGPO_EVENTCODE_DISCONNECTED_FROM_PEER)"

section \<open>Control surface (Netplay.cpp)\<close>

text \<open>
  \<^verbatim>\<open>delete l_RollbackNetplay\<close>: the destructor of \<^verbatim>\<open>RollbackNetplay\<close> and then the one of
  its \<^verbatim>\<open>RollbackNetplayImpl\<close> each call \<^verbatim>\<open>Shutdown\<close>. The object and its implementation are
  one address in the model.
\<close>

definition delete_RollbackNetplay :: "ptr \<Rightarrow> process \<Rightarrow> process" where
  "delete_RollbackNetplay this s = Shutdown this (Shutdown this s)"

text \<open>
  \<^verbatim>\<open>CoreInitRollbackNetplay(address, port, player, maxPlayers)\<close>. \<open>new_object\<close> is the address
  \<^verbatim>\<open>new RollbackNetplay()\<close> returns when it runs, \<open>frameDelay\<close> the value of the setting
  \<^verbatim>\<open>Netplay_RollbackFrameDelay\<close>.
\<close>

definition CoreInitRollbackNetplay ::
  "ggpo \<Rightarrow> ptr \<Rightarrow> int \<Rightarrow> string \<Rightarrow> int \<Rightarrow> int \<Rightarrow> int \<Rightarrow> process \<Rightarrow> bool \<times> process" where
  "CoreInitRollbackNetplay g new_object frameDelay address port player maxPl s =
     (if l_HasInitNetplay s
      then (False, CoreSetError
              ''Cannot initialize rollback netplay when standard netplay is active'' s)
      else if l_HasInitRollbackNetplay s then (True, s)
      else if player < 1 \<or> player > 4 \<or> maxPl < 2 \<or> maxPl > 4
      then (False, CoreSetError ''Invalid player number or max players for rollback netplay'' s)
      else
        (let s1 = s\<lparr>l_RollbackLocalPlayer := player, l_RollbackMaxPlayers := maxPl\<rparr>;
             s2 = (if l_RollbackNetplay s1 = 0
                   then s1\<lparr>l_RollbackNetplay := new_object,
                           impls := (impls s1)(new_object := RollbackNetplayImpl_new)\<rparr>
                   else s1);
             this = l_RollbackNetplay s2;
             s3 = SetCallbacks this s2;
             (ok, s4) = Initialize g this address port player maxPl frameDelay s3
         in if \<not> ok
            then (False, (delete_RollbackNetplay this
                            (CoreSetError ''Failed to initialize rollback netplay'' s4))
                           \<lparr>l_RollbackNetplay := 0\<rparr>)
            else (True, s4\<lparr>l_HasInitRollbackNetplay := True\<rparr>)))"

definition CoreHasInitRollbackNetplay :: "process \<Rightarrow> bool" where
  "CoreHasInitRollbackNetplay s = l_HasInitRollbackNetplay s"

definition CoreShutdownRollbackNetplay :: "process \<Rightarrow> bool \<times> process" where
  "CoreShutdownRollbackNetplay s =
     (if \<not> l_HasInitRollbackNetplay s \<or> l_RollbackNetplay s = 0 then (True, s)
      else (True, (delete_RollbackNetplay (l_RollbackNetplay s) (Shutdown (l_RollbackNetplay s) s))
                    \<lparr>l_RollbackNetplay := 0, l_HasInitRollbackNetplay := False\<rparr>))"

definition CoreRollbackNetplayAddLocalInput :: "ggpo \<Rightarrow> mem \<Rightarrow> process \<Rightarrow> bool \<times> process" where
  "CoreRollbackNetplayAddLocalInput g input s =
     (if \<not> l_HasInitRollbackNetplay s \<or> l_RollbackNetplay s = 0 then (False, s)
      else AddLocalInput g (l_RollbackNetplay s) input s)"

text \<open>
  \<^verbatim>\<open>CoreGetNetplayPlayerIndex()\<close>; \<open>NETPLAY\<close> tells whether the macro of that name is
  defined in the build.
\<close>

definition CoreGetNetplayPlayerIndex :: "bool \<Rightarrow> process \<Rightarrow> int" where
  "CoreGetNetplayPlayerIndex NETPLAY s =
     (if NETPLAY then (if l_RollbackLocalPlayer s > 0 then l_RollbackLocalPlayer s - 1 else 0)
      else 0)"


section \<open>Concrete inputs\<close>

text \<open>
  A GGPO that accepts every call, one that refuses the local input, and the process after
  a first successful \<^verbatim>\<open>CoreInitRollbackNetplay\<close> for player 1 of 2, whose session object
  was allocated at address 5.
\<close>

definition ggpo_accepting :: ggpo where
  "ggpo_accepting =
     \<lparr>start_session_result = GGPO_OK, new_session = 7,
      add_player_result = (\<lambda>_. GGPO_OK), add_player_handle = (\<lambda>n. n),
      set_frame_delay_result = GGPO_OK, add_local_input_result = GGPO_OK,
      network_stats = None\<rparr>"

definition ggpo_rejecting_input :: ggpo where
  "ggpo_rejecting_input = ggpo_accepting\<lparr>add_local_input_result := GGPO_ERRORCODE 4\<rparr>"

definition process_in_session :: process where
  "process_in_session =
     snd (CoreInitRollbackNetplay ggpo_accepting 5 1 ''127.0.0.1'' 7000 1 2 (process_start 1))"

text \<open>The metrics of the active session, the object \<^verbatim>\<open>GetInstance()\<close> returns.\<close>

definition session_metrics :: "process \<Rightarrow> RollbackMetrics" where
  "session_metrics s = metrics (impls s (instancePtr s))"


text \<open>
  A host for small runs: the emulator writes the four bytes 1, 2, 0, 0 as its state, the
  stand-in for deflate returns its input, the stand-in for the CRC is the length. And two
  processes: one whose pool has buffers of 1064 bytes (room for a state of 4 bytes), and
  one whose only pool buffer, at address 1, starts with an all-zero envelope.
\<close>

definition host_small :: host where
  "host_small =
     \<lparr>malloc_ret = 2, elapsed_ns = 0,
      state_save = (\<lambda>n m. (True, write_bytes m 0 [1, 2, 0, 0])),
      state_load = (\<lambda>n m. True),
      rng_query = None,
      deflateInit_ok = True, deflate_stream = (\<lambda>bs. bs),
      inflateInit_ok = True, inflate_stream = (\<lambda>bs. (True, bs)),
      crc32 = (\<lambda>bs. word_of_nat (length bs))\<rparr>"

definition host_incompressible :: host where
  "host_incompressible = host_small\<lparr>deflate_stream := (\<lambda>bs. replicate 1025 0)\<rparr>"

definition process_small_pool :: process where
  "process_small_pool = (process_start 1)\<lparr>g_stateBufferPool := StateBufferPool_new 1 1064 4\<rparr>"





section \<open>Button mapping\<close>

lemmas BTN_defs =
  BTN_A_def BTN_B_def BTN_Z_def BTN_START_def BTN_DPAD_UP_def BTN_DPAD_DOWN_def
  BTN_DPAD_LEFT_def BTN_DPAD_RIGHT_def BTN_SHOULDER_L_def BTN_SHOULDER_R_def BTN_C_UP_def
  BTN_C_DOWN_def BTN_C_LEFT_def BTN_C_RIGHT_def

lemma and_single_bit:
  "n < LENGTH('a) \<Longrightarrow> ((w::'a::len word) AND push_bit n 1 \<noteq> 0) = bit w n"
  by (metis and_exp_eq_0_iff_not_bit push_bit_of_1)

lemma bit_set_if:
  "n < LENGTH('a) \<Longrightarrow>
   bit (set_if c (push_bit n 1) (acc::'a::len word)) k = (bit acc k \<or> (c \<and> k = n))"
  by (auto simp: set_if_def bit_simps)

lemma u32_mask_tests:
  "((w::u32) AND 0x0001 \<noteq> 0) = bit w 0"
  "((w::u32) AND 0x0002 \<noteq> 0) = bit w 1"
  "((w::u32) AND 0x0004 \<noteq> 0) = bit w 2"
  "((w::u32) AND 0x0008 \<noteq> 0) = bit w 3"
  "((w::u32) AND 0x0010 \<noteq> 0) = bit w 4"
  "((w::u32) AND 0x0020 \<noteq> 0) = bit w 5"
  "((w::u32) AND 0x0040 \<noteq> 0) = bit w 6"
  "((w::u32) AND 0x0080 \<noteq> 0) = bit w 7"
  "((w::u32) AND 0x0100 \<noteq> 0) = bit w 8"
  "((w::u32) AND 0x0200 \<noteq> 0) = bit w 9"
  "((w::u32) AND 0x0400 \<noteq> 0) = bit w 10"
  "((w::u32) AND 0x0800 \<noteq> 0) = bit w 11"
  "((w::u32) AND 0x1000 \<noteq> 0) = bit w 12"
  "((w::u32) AND 0x2000 \<noteq> 0) = bit w 13"
  using
    and_single_bit [of 0 w]
    and_single_bit [of 1 w]
    and_single_bit [of 2 w]
    and_single_bit [of 3 w]
    and_single_bit [of 4 w]
    and_single_bit [of 5 w]
    and_single_bit [of 6 w]
    and_single_bit [of 7 w]
    and_single_bit [of 8 w]
    and_single_bit [of 9 w]
    and_single_bit [of 10 w]
    and_single_bit [of 11 w]
    and_single_bit [of 12 w]
    and_single_bit [of 13 w]
  by simp_all

lemma u32_mask_sets:
  "bit (set_if c (0x0001::u32) acc) k = (bit acc k \<or> (c \<and> k = 0))"
  "bit (set_if c (0x0002::u32) acc) k = (bit acc k \<or> (c \<and> k = 1))"
  "bit (set_if c (0x0004::u32) acc) k = (bit acc k \<or> (c \<and> k = 2))"
  "bit (set_if c (0x0008::u32) acc) k = (bit acc k \<or> (c \<and> k = 3))"
  "bit (set_if c (0x0010::u32) acc) k = (bit acc k \<or> (c \<and> k = 4))"
  "bit (set_if c (0x0020::u32) acc) k = (bit acc k \<or> (c \<and> k = 5))"
  "bit (set_if c (0x0040::u32) acc) k = (bit acc k \<or> (c \<and> k = 6))"
  "bit (set_if c (0x0080::u32) acc) k = (bit acc k \<or> (c \<and> k = 7))"
  "bit (set_if c (0x0100::u32) acc) k = (bit acc k \<or> (c \<and> k = 8))"
  "bit (set_if c (0x0200::u32) acc) k = (bit acc k \<or> (c \<and> k = 9))"
  "bit (set_if c (0x0400::u32) acc) k = (bit acc k \<or> (c \<and> k = 10))"
  "bit (set_if c (0x0800::u32) acc) k = (bit acc k \<or> (c \<and> k = 11))"
  "bit (set_if c (0x1000::u32) acc) k = (bit acc k \<or> (c \<and> k = 12))"
  "bit (set_if c (0x2000::u32) acc) k = (bit acc k \<or> (c \<and> k = 13))"
  using
    bit_set_if [of 0 c acc k]
    bit_set_if [of 1 c acc k]
    bit_set_if [of 2 c acc k]
    bit_set_if [of 3 c acc k]
    bit_set_if [of 4 c acc k]
    bit_set_if [of 5 c acc k]
    bit_set_if [of 6 c acc k]
    bit_set_if [of 7 c acc k]
    bit_set_if [of 8 c acc k]
    bit_set_if [of 9 c acc k]
    bit_set_if [of 10 c acc k]
    bit_set_if [of 11 c acc k]
    bit_set_if [of 12 c acc k]
    bit_set_if [of 13 c acc k]
  by simp_all

lemma u16_mask_tests:
  "((w::u16) AND 0x0001 \<noteq> 0) = bit w 0"
  "((w::u16) AND 0x0002 \<noteq> 0) = bit w 1"
  "((w::u16) AND 0x0004 \<noteq> 0) = bit w 2"
  "((w::u16) AND 0x0008 \<noteq> 0) = bit w 3"
  "((w::u16) AND 0x0010 \<noteq> 0) = bit w 4"
  "((w::u16) AND 0x0020 \<noteq> 0) = bit w 5"
  "((w::u16) AND 0x0040 \<noteq> 0) = bit w 6"
  "((w::u16) AND 0x0080 \<noteq> 0) = bit w 7"
  "((w::u16) AND 0x0100 \<noteq> 0) = bit w 8"
  "((w::u16) AND 0x0200 \<noteq> 0) = bit w 9"
  "((w::u16) AND 0x0400 \<noteq> 0) = bit w 10"
  "((w::u16) AND 0x0800 \<noteq> 0) = bit w 11"
  "((w::u16) AND 0x1000 \<noteq> 0) = bit w 12"
  "((w::u16) AND 0x2000 \<noteq> 0) = bit w 13"
  using
    and_single_bit [of 0 w]
    and_single_bit [of 1 w]
    and_single_bit [of 2 w]
    and_single_bit [of 3 w]
    and_single_bit [of 4 w]
    and_single_bit [of 5 w]
    and_single_bit [of 6 w]
    and_single_bit [of 7 w]
    and_single_bit [of 8 w]
    and_single_bit [of 9 w]
    and_single_bit [of 10 w]
    and_single_bit [of 11 w]
    and_single_bit [of 12 w]
    and_single_bit [of 13 w]
  by simp_all

lemma u16_mask_sets:
  "bit (set_if c (0x0001::u16) acc) k = (bit acc k \<or> (c \<and> k = 0))"
  "bit (set_if c (0x0002::u16) acc) k = (bit acc k \<or> (c \<and> k = 1))"
  "bit (set_if c (0x0004::u16) acc) k = (bit acc k \<or> (c \<and> k = 2))"
  "bit (set_if c (0x0008::u16) acc) k = (bit acc k \<or> (c \<and> k = 3))"
  "bit (set_if c (0x0010::u16) acc) k = (bit acc k \<or> (c \<and> k = 4))"
  "bit (set_if c (0x0020::u16) acc) k = (bit acc k \<or> (c \<and> k = 5))"
  "bit (set_if c (0x0040::u16) acc) k = (bit acc k \<or> (c \<and> k = 6))"
  "bit (set_if c (0x0080::u16) acc) k = (bit acc k \<or> (c \<and> k = 7))"
  "bit (set_if c (0x0100::u16) acc) k = (bit acc k \<or> (c \<and> k = 8))"
  "bit (set_if c (0x0200::u16) acc) k = (bit acc k \<or> (c \<and> k = 9))"
  "bit (set_if c (0x0400::u16) acc) k = (bit acc k \<or> (c \<and> k = 10))"
  "bit (set_if c (0x0800::u16) acc) k = (bit acc k \<or> (c \<and> k = 11))"
  "bit (set_if c (0x1000::u16) acc) k = (bit acc k \<or> (c \<and> k = 12))"
  "bit (set_if c (0x2000::u16) acc) k = (bit acc k \<or> (c \<and> k = 13))"
  using
    bit_set_if [of 0 c acc k]
    bit_set_if [of 1 c acc k]
    bit_set_if [of 2 c acc k]
    bit_set_if [of 3 c acc k]
    bit_set_if [of 4 c acc k]
    bit_set_if [of 5 c acc k]
    bit_set_if [of 6 c acc k]
    bit_set_if [of 7 c acc k]
    bit_set_if [of 8 c acc k]
    bit_set_if [of 9 c acc k]
    bit_set_if [of 10 c acc k]
    bit_set_if [of 11 c acc k]
    bit_set_if [of 12 c acc k]
    bit_set_if [of 13 c acc k]
  by simp_all

lemma bit_map_native_buttons:
  "bit (map_native_buttons b) k \<longleftrightarrow>
     (bit b 0 \<and> k = 7) \<or> (bit b 1 \<and> k = 6) \<or> (bit b 2 \<and> k = 5) \<or> (bit b 3 \<and> k = 4) \<or>
     (bit b 4 \<and> k = 3) \<or> (bit b 5 \<and> k = 2) \<or> (bit b 6 \<and> k = 1) \<or> (bit b 7 \<and> k = 0) \<or>
     (bit b 8 \<and> k = 9) \<or> (bit b 9 \<and> k = 8) \<or> (bit b 10 \<and> k = 13) \<or> (bit b 11 \<and> k = 12) \<or>
     (bit b 12 \<and> k = 11) \<or> (bit b 13 \<and> k = 10)"
  unfolding map_native_buttons_def BTN_defs
  by (simp add: u16_mask_sets u32_mask_tests)

lemma bit_map_canonical_buttons:
  "bit (map_canonical_buttons c) k \<longleftrightarrow>
     (bit c 7 \<and> k = 0) \<or> (bit c 6 \<and> k = 1) \<or> (bit c 5 \<and> k = 2) \<or> (bit c 4 \<and> k = 3) \<or>
     (bit c 3 \<and> k = 4) \<or> (bit c 2 \<and> k = 5) \<or> (bit c 1 \<and> k = 6) \<or> (bit c 0 \<and> k = 7) \<or>
     (bit c 9 \<and> k = 8) \<or> (bit c 8 \<and> k = 9) \<or> (bit c 13 \<and> k = 10) \<or> (bit c 12 \<and> k = 11) \<or>
     (bit c 11 \<and> k = 12) \<or> (bit c 10 \<and> k = 13)"
  unfolding map_canonical_buttons_def BTN_defs
  by (simp add: u32_mask_sets u16_mask_tests)

lemma bit_and_3FFF: "bit ((w::'a::len word) AND 0x3FFF) k \<longleftrightarrow> bit w k \<and> k < 14"
proof -
  have "(0x3FFF::'a word) = mask 14"
    by (simp add: mask_eq_exp_minus_1)
  then show ?thesis
    by (simp only: bit_and_iff bit_mask_iff) (auto dest: bit_imp_le_length)
qed

lemma less_14_cases:
  "(k::nat) < 14 \<longleftrightarrow> k = 0 \<or> k = 1 \<or> k = 2 \<or> k = 3 \<or> k = 4 \<or> k = 5 \<or> k = 6 \<or> k = 7 \<or>
     k = 8 \<or> k = 9 \<or> k = 10 \<or> k = 11 \<or> k = 12 \<or> k = 13"
  by arith

lemma canonical_of_native: "map_canonical_buttons (map_native_buttons b) = b AND 0x3FFF"
proof (rule bit_word_eqI)
  fix k
  show "bit (map_canonical_buttons (map_native_buttons b)) k = bit (b AND 0x3FFF) k"
    unfolding bit_map_canonical_buttons bit_map_native_buttons bit_and_3FFF less_14_cases
    by simp (safe; simp)
qed

lemma native_of_canonical: "map_native_buttons (map_canonical_buttons c) = c AND 0x3FFF"
proof (rule bit_word_eqI)
  fix k
  show "bit (map_native_buttons (map_canonical_buttons c)) k = bit (c AND 0x3FFF) k"
    unfolding bit_map_canonical_buttons bit_map_native_buttons bit_and_3FFF less_14_cases
    by simp (safe; simp)
qed

lemma native_ignores_high_bits: "map_native_buttons (b AND 0x3FFF) = map_native_buttons b"
proof (rule bit_word_eqI)
  fix k
  show "bit (map_native_buttons (b AND 0x3FFF)) k = bit (map_native_buttons b) k"
    unfolding bit_map_native_buttons bit_and_3FFF by simp
qed

lemma canonical_ignores_high_bits: "map_canonical_buttons (c AND 0x3FFF) = map_canonical_buttons c"
proof (rule bit_word_eqI)
  fix k
  show "bit (map_canonical_buttons (c AND 0x3FFF)) k = bit (map_canonical_buttons c) k"
    unfolding bit_map_canonical_buttons bit_and_3FFF by simp
qed

lemma native_table:
  "map map_native_buttons
     [0x0001, 0x0002, 0x0004, 0x0008, 0x0010, 0x0020, 0x0040, 0x0080,
      0x0100, 0x0200, 0x0400, 0x0800, 0x1000, 0x2000] =
     [BTN_DPAD_RIGHT, BTN_DPAD_LEFT, BTN_DPAD_DOWN, BTN_DPAD_UP, BTN_START, BTN_Z, BTN_B, BTN_A,
      BTN_SHOULDER_R, BTN_SHOULDER_L, BTN_C_RIGHT, BTN_C_LEFT, BTN_C_DOWN, BTN_C_UP]"
  by (simp add: map_native_buttons_def set_if_def BTN_defs)

lemma canonical_table:
  "map map_canonical_buttons
     [BTN_DPAD_RIGHT, BTN_DPAD_LEFT, BTN_DPAD_DOWN, BTN_DPAD_UP, BTN_START, BTN_Z, BTN_B, BTN_A,
      BTN_SHOULDER_R, BTN_SHOULDER_L, BTN_C_RIGHT, BTN_C_LEFT, BTN_C_DOWN, BTN_C_UP] =
     [0x0001, 0x0002, 0x0004, 0x0008, 0x0010, 0x0020, 0x0040, 0x0080,
      0x0100, 0x0200, 0x0400, 0x0800, 0x1000, 0x2000]"
  by (simp add: map_canonical_buttons_def set_if_def BTN_defs)

text \<open>
  C4. The button mapping of \<^verbatim>\<open>GetControllerInputs\<close> (native to canonical) and the one of
  \<^verbatim>\<open>ApplyControllerInputs\<close> (canonical to native) are inverse to each other on the 14
  defined bits: mapping a native word and mapping it back gives the word restricted to its
  low 14 bits, and the same holds in the other order; both mappings ignore every other bit
  of their argument; and each native bit of the table of section 6 is sent to the canonical
  button the table names, and back.
\<close>

theorem button_mappings_inverse:
  "map_canonical_buttons (map_native_buttons b) = b AND 0x3FFF \<and>
   map_native_buttons (map_canonical_buttons c) = c AND 0x3FFF \<and>
   map_native_buttons (b AND 0x3FFF) = map_native_buttons b \<and>
   map_canonical_buttons (c AND 0x3FFF) = map_canonical_buttons c \<and>
   map map_native_buttons
     [0x0001, 0x0002, 0x0004, 0x0008, 0x0010, 0x0020, 0x0040, 0x0080,
      0x0100, 0x0200, 0x0400, 0x0800, 0x1000, 0x2000] =
     [BTN_DPAD_RIGHT, BTN_DPAD_LEFT, BTN_DPAD_DOWN, BTN_DPAD_UP, BTN_START, BTN_Z, BTN_B, BTN_A,
      BTN_SHOULDER_R, BTN_SHOULDER_L, BTN_C_RIGHT, BTN_C_LEFT, BTN_C_DOWN, BTN_C_UP] \<and>
   map map_canonical_buttons
     [BTN_DPAD_RIGHT, BTN_DPAD_LEFT, BTN_DPAD_DOWN, BTN_DPAD_UP, BTN_START, BTN_Z, BTN_B, BTN_A,
      BTN_SHOULDER_R, BTN_SHOULDER_L, BTN_C_RIGHT, BTN_C_LEFT, BTN_C_DOWN, BTN_C_UP] =
     [0x0001, 0x0002, 0x0004, 0x0008, 0x0010, 0x0020, 0x0040, 0x0080,
      0x0100, 0x0200, 0x0400, 0x0800, 0x1000, 0x2000]"
  using canonical_of_native native_of_canonical native_ignores_high_bits
    canonical_ignores_high_bits native_table canonical_table
  by blast


section \<open>Applying a record to the virtual controller\<close>

lemma rd16_le16: "rd16 (write_bytes m off (le16 w @ rest)) off = w"
  unfolding rd16_def write_bytes_def le16_def
  apply (simp add: nth_append)
  apply (rule bit_word_eqI)
  apply (auto simp: bit_simps)
  done

text \<open>
  Decoding an encoded record gives the record back, and a local input that is encoded and
  then applied for the same player reaches the virtual controller with the native button
  bits it was read with, restricted to the 14 defined bits.
\<close>


lemma ControllerInput_roundtrip:
  "ControllerInput_of_mem (write_bytes m off (ControllerInput_bytes c)) off = c"
proof -
  let ?m' = "write_bytes m off (ControllerInput_bytes c)"
  have word: "rd16 ?m' off = buttons c"
    unfolding ControllerInput_bytes_def by (rule rd16_le16)
  have bytes: "?m' (off + 2) = stick_x c" "?m' (off + 3) = stick_y c"
    "?m' (off + 4) = trigger_r c" "?m' (off + 5) = trigger_l c"
    "?m' (off + 6) = reserved0 c" "?m' (off + 7) = reserved1 c"
    by (simp_all add: write_bytes_def ControllerInput_bytes_def le16_def)
  show ?thesis
    unfolding ControllerInput_of_mem_def word bytes by simp
qed

lemma encode_then_apply_buttons:
  assumes "0 \<le> idx" and "idx < 4"
    and "GetStatus api = Some get_status" and "get_status (idx + 1) = (True, connected)"
    and "connected \<noteq> 0"
    and "ReadController api = Some read_controller"
    and "read_controller (idx + 1) = (True, b, x_axis, y_axis)"
    and "SetButtonState api" and "SetAxisValue api"
  shows "input_calls (ApplyControllerInputs api (GetControllerInputs api idx (Some m)) idx s) =
           input_calls s @
           [SetButtonState_call (idx + 1) (b AND 0x3FFF),
            SetAxisValue_call (idx + 1) 0 x_axis, SetAxisValue_call (idx + 1) 1 y_axis]"
proof -
  have rec: "read_local_input api idx = ControllerInput_zero
               \<lparr>buttons := map_native_buttons b, stick_x := x_axis, stick_y := y_axis,
                trigger_l := (if b AND 0x0200 \<noteq> 0 then 255 else 0),
                trigger_r := (if b AND 0x0100 \<noteq> 0 then 255 else 0)\<rparr>"
    using assms(3-7) by (simp add: read_local_input_def)
  have enc: "GetControllerInputs api idx (Some m) =
      Some (write_bytes m (nat idx * ROLLBACK_INPUT_BYTES)
              (ControllerInput_bytes (read_local_input api idx)))"
    by (simp add: GetControllerInputs_def)
  show ?thesis
    unfolding enc using assms(1,2,8,9)
    by (simp add: ApplyControllerInputs_def Let_def ControllerInput_roundtrip rec
        canonical_of_native)
qed

text \<open>
  C5, as stated, fails. An input record with the left shoulder button held and a left
  trigger byte of \<open>0xFF\<close>, applied for player index 0 with both setters present, makes
  exactly three calls on the virtual controller: the button word and the two stick axes.
  No call carries a trigger value.
\<close>

theorem apply_writes_no_trigger_counterexample:
  "input_calls (ApplyControllerInputs
      \<lparr>GetStatus = None, ReadController = None, SetButtonState = True, SetAxisValue = True\<rparr>
      (Some (write_bytes (\<lambda>_. 0) 0
         (ControllerInput_bytes \<lparr>buttons = BTN_SHOULDER_L, stick_x = 0, stick_y = 0,
             trigger_r = 0, trigger_l = 255, reserved0 = 0, reserved1 = 0\<rparr>)))
      0 (process_start 1))
   = [SetButtonState_call 1 0x0200, SetAxisValue_call 1 0 0, SetAxisValue_call 1 1 0]"
  by (simp add: ApplyControllerInputs_def process_start_def ControllerInput_of_mem_def
      ControllerInput_bytes_def write_bytes_def rd16_def le16_def map_canonical_buttons_def
      set_if_def ROLLBACK_INPUT_BYTES_def BTN_defs Let_def)

text \<open>
  C5, amended. For every input buffer and player index 0..3, the apply operation writes
  to the emulator's virtual controller only the native image of the record's button word
  and the two stick axes (each when its setter is present); it writes no trigger value.
  The trigger bytes are derived from the shoulder-button bits when the local input is
  encoded: in the record \<^verbatim>\<open>GetControllerInputs\<close> builds for a connected, readable
  controller, \<open>trigger_l\<close> is \<open>0xFF\<close> when native bit \<open>0x0200\<close> is held and 0 otherwise, and
  \<open>trigger_r\<close> is \<open>0xFF\<close> when native bit \<open>0x0100\<close> is held and 0 otherwise.
\<close>

theorem apply_writes_buttons_and_sticks_only:
  "(0 \<le> playerIndex \<and> playerIndex < 4 \<longrightarrow>
      input_calls (ApplyControllerInputs api (Some m) playerIndex s) =
        input_calls s @
        (if SetButtonState api
         then [SetButtonState_call (playerIndex + 1)
                 (map_canonical_buttons (rd16 m (nat playerIndex * 32)))]
         else []) @
        (if SetAxisValue api
         then [SetAxisValue_call (playerIndex + 1) 0 (m (nat playerIndex * 32 + 2)),
               SetAxisValue_call (playerIndex + 1) 1 (m (nat playerIndex * 32 + 3))]
         else [])) \<and>
   (GetStatus local_api = Some get_status \<and> get_status (localIndex + 1) = (True, connected) \<and>
    connected \<noteq> 0 \<and> ReadController local_api = Some read_controller \<and>
    read_controller (localIndex + 1) = (True, b, x_axis, y_axis) \<longrightarrow>
      trigger_l (read_local_input local_api localIndex) =
        (if b AND 0x0200 \<noteq> 0 then 0xFF else 0) \<and>
      trigger_r (read_local_input local_api localIndex) =
        (if b AND 0x0100 \<noteq> 0 then 0xFF else 0))"
proof (intro conjI impI)
  assume "0 \<le> playerIndex \<and> playerIndex < 4"
  then show "input_calls (ApplyControllerInputs api (Some m) playerIndex s) =
        input_calls s @
        (if SetButtonState api
         then [SetButtonState_call (playerIndex + 1)
                 (map_canonical_buttons (rd16 m (nat playerIndex * 32)))]
         else []) @
        (if SetAxisValue api
         then [SetAxisValue_call (playerIndex + 1) 0 (m (nat playerIndex * 32 + 2)),
               SetAxisValue_call (playerIndex + 1) 1 (m (nat playerIndex * 32 + 3))]
         else [])"
    by (simp add: ApplyControllerInputs_def ControllerInput_of_mem_def ROLLBACK_INPUT_BYTES_def
        Let_def)
next
  assume local: "GetStatus local_api = Some get_status \<and>
    get_status (localIndex + 1) = (True, connected) \<and>
    connected \<noteq> 0 \<and> ReadController local_api = Some read_controller \<and>
    read_controller (localIndex + 1) = (True, b, x_axis, y_axis)"
  then have rec: "read_local_input local_api localIndex = ControllerInput_zero
               \<lparr>buttons := map_native_buttons b, stick_x := x_axis, stick_y := y_axis,
                trigger_l := (if b AND 0x0200 \<noteq> 0 then 255 else 0),
                trigger_r := (if b AND 0x0100 \<noteq> 0 then 255 else 0)\<rparr>"
    by (simp add: read_local_input_def)
  show "trigger_l (read_local_input local_api localIndex) =
        (if b AND 0x0200 \<noteq> 0 then 0xFF else 0)"
    by (simp add: rec)
  show "trigger_r (read_local_input local_api localIndex) =
        (if b AND 0x0100 \<noteq> 0 then 0xFF else 0)"
    by (simp add: rec)
qed

theorem apply_writes_buttons_and_sticks_only_witness:
  "input_calls (ApplyControllerInputs
      \<lparr>GetStatus = None, ReadController = None, SetButtonState = True, SetAxisValue = True\<rparr>
      (Some (write_bytes (\<lambda>_. 0) 64
         (ControllerInput_bytes \<lparr>buttons = BTN_SHOULDER_L OR BTN_A, stick_x = 5, stick_y = 250,
             trigger_r = 0, trigger_l = 255, reserved0 = 0, reserved1 = 0\<rparr>)))
      2 (process_start 1)) =
     [SetButtonState_call 3 0x0280, SetAxisValue_call 3 0 5, SetAxisValue_call 3 1 250] \<and>
   trigger_l (read_local_input
      \<lparr>GetStatus = Some (\<lambda>_. (True, 1)), ReadController = Some (\<lambda>_. (True, 0x0200, 5, 250)),
       SetButtonState = True, SetAxisValue = True\<rparr> 0) = 0xFF \<and>
   trigger_r (read_local_input
      \<lparr>GetStatus = Some (\<lambda>_. (True, 1)), ReadController = Some (\<lambda>_. (True, 0x0200, 5, 250)),
       SetButtonState = True, SetAxisValue = True\<rparr> 0) = 0"
proof -
  let ?api = "\<lparr>GetStatus = None, ReadController = None, SetButtonState = True,
               SetAxisValue = True\<rparr>"
  let ?local = "\<lparr>GetStatus = Some (\<lambda>_. (True, 1)),
                 ReadController = Some (\<lambda>_. (True, 0x0200, 5, 250)),
                 SetButtonState = True, SetAxisValue = True\<rparr>"
  let ?rec = "\<lparr>buttons = BTN_SHOULDER_L OR BTN_A, stick_x = 5, stick_y = 250,
               trigger_r = 0, trigger_l = 255, reserved0 = 0, reserved1 = 0\<rparr>"
  let ?m = "write_bytes (\<lambda>_. 0) 64 (ControllerInput_bytes ?rec)"
  have slot: "nat 2 * 32 = (64::nat)" by simp
  have word: "rd16 ?m 64 = BTN_SHOULDER_L OR BTN_A"
    unfolding ControllerInput_bytes_def by (simp add: rd16_le16)
  have held: "map_canonical_buttons (BTN_SHOULDER_L OR BTN_A) = 0x0280"
    by (simp add: map_canonical_buttons_def set_if_def BTN_defs)
  have sticks: "?m (64 + 2) = 5" "?m (64 + 3) = 250"
    by (simp_all add: write_bytes_def ControllerInput_bytes_def le16_def)
  have start: "input_calls (process_start 1) = []"
    by (simp add: process_start_def)
  note both = apply_writes_buttons_and_sticks_only
    [of 2 ?api ?m "process_start 1" ?local "\<lambda>_. (True, 1)" 0 1
        "\<lambda>_. (True, 0x0200, 5, 250)" "0x0200" 5 250, unfolded slot word held sticks start]
  from both show ?thesis by simp
qed


section \<open>Buffer pool\<close>

text \<open>
  C7, as stated, fails. In a pool of at most 4 buffers whose single pre-allocated buffer is
  in use, the free list is empty and only one buffer is in use, yet \<^verbatim>\<open>getBuffer\<close> returns
  no buffer when \<^verbatim>\<open>malloc\<close> fails.
\<close>

theorem getBuffer_exhaustion_counterexample:
  "\<not> (fst (getBuffer 0 (snd (getBuffer 0 (StateBufferPool_new 1 8388608 4)))) = 0 \<longleftrightarrow>
        m_freeBuffers (snd (getBuffer 0 (StateBufferPool_new 1 8388608 4))) = [] \<and>
        m_maxBuffers (snd (getBuffer 0 (StateBufferPool_new 1 8388608 4)))
          \<le> length (m_usedBuffers (snd (getBuffer 0 (StateBufferPool_new 1 8388608 4)))))"
  by (simp add: getBuffer_def StateBufferPool_new_def)

text \<open>
  C7, amended. For a pool constructed with a maximum of 1 buffer (its pre-allocation having
  succeeded), the first acquire returns the pre-allocated buffer, a second acquire while it
  is held returns no buffer and leaves the pool as it is, and after the buffer is released
  the next acquire returns it again. In general, for a pool whose free list holds no null
  pointer, acquire returns no buffer exactly when the free list is empty and either the
  number of buffers in use has reached the maximum or the allocation of a new buffer fails.
\<close>

theorem getBuffer_exhaustion:
  assumes "0 \<notin> set (m_freeBuffers pool)" and "p \<noteq> 0"
  shows "(fst (getBuffer mr pool) = 0 \<longleftrightarrow>
            m_freeBuffers pool = [] \<and>
            (m_maxBuffers pool \<le> length (m_usedBuffers pool) \<or> mr = 0)) \<and>
         (let pool0 = StateBufferPool_new p bufferSize 1;
              (b1, pool1) = getBuffer mr1 pool0;
              (b2, pool2) = getBuffer mr2 pool1;
              (b3, pool3) = getBuffer mr3 (releaseBuffer b1 pool2)
          in b1 = p \<and> b2 = 0 \<and> pool2 = pool1 \<and> b3 = p)"
proof -
  have general: "fst (getBuffer mr pool) = 0 \<longleftrightarrow>
            m_freeBuffers pool = [] \<and>
            (m_maxBuffers pool \<le> length (m_usedBuffers pool) \<or> mr = 0)"
  proof (cases "m_freeBuffers pool = []")
    case True
    then show ?thesis by (auto simp: getBuffer_def)
  next
    case False
    then have "last (m_freeBuffers pool) \<in> set (m_freeBuffers pool)" by simp
    with assms(1) have "last (m_freeBuffers pool) \<noteq> 0" by metis
    with False show ?thesis by (simp add: getBuffer_def Let_def)
  qed
  have scenario: "(let pool0 = StateBufferPool_new p bufferSize 1;
              (b1, pool1) = getBuffer mr1 pool0;
              (b2, pool2) = getBuffer mr2 pool1;
              (b3, pool3) = getBuffer mr3 (releaseBuffer b1 pool2)
          in b1 = p \<and> b2 = 0 \<and> pool2 = pool1 \<and> b3 = p)"
    using assms(2) by (simp add: getBuffer_def releaseBuffer_def StateBufferPool_new_def Let_def)
  from general scenario show ?thesis by blast
qed

theorem getBuffer_exhaustion_witness:
  "fst (getBuffer 9 (snd (getBuffer 9 (StateBufferPool_new 1 8388608 1)))) = 0 \<and>
   (let pool0 = StateBufferPool_new 1 8388608 1;
        (b1, pool1) = getBuffer 9 pool0;
        (b2, pool2) = getBuffer 9 pool1;
        (b3, pool3) = getBuffer 9 (releaseBuffer b1 pool2)
    in b1 = 1 \<and> b2 = 0 \<and> pool2 = pool1 \<and> b3 = 1)"
  using getBuffer_exhaustion
    [of "snd (getBuffer 9 (StateBufferPool_new 1 8388608 1))" 1 9 8388608 9 9 9]
  by (simp add: getBuffer_def StateBufferPool_new_def)


section \<open>Session lifecycle\<close>

lemma process_in_session_facts:
  "l_HasInitRollbackNetplay process_in_session"
  "\<not> l_HasInitNetplay process_in_session"
  "l_RollbackNetplay process_in_session = 5"
  "instancePtr process_in_session = 5"
  "initialized (impls process_in_session 5)"
  "ggpoSession (impls process_in_session 5) = 7"
  "\<not> initialized (impls process_in_session 9)"
  "core_error process_in_session = []"
  "currentInputSequence (impls process_in_session 5) = 0"
  "metrics (impls process_in_session 5) = metrics RollbackNetplayImpl_new"
  by (simp_all add: process_in_session_def CoreInitRollbackNetplay_def process_start_def
      ggpo_accepting_def Initialize_def SetCallbacks_def RollbackNetplayImpl_new_def
      CoreSetError_def Let_def StateBufferPool_new_def numeral_2_eq_2)

text \<open>
  C1, as stated, fails. After a first successful initialization the session is active; a
  second call of \<^verbatim>\<open>CoreInitRollbackNetplay\<close> returns true and reports no error.
\<close>

theorem init_while_active_counterexample:
  "l_HasInitRollbackNetplay process_in_session \<and>
   fst (CoreInitRollbackNetplay ggpo_accepting 6 1 ''127.0.0.1'' 7000 2 4 process_in_session) \<and>
   core_error (snd (CoreInitRollbackNetplay ggpo_accepting 6 1 ''127.0.0.1'' 7000 2 4
                      process_in_session)) = []"
  by (simp add: process_in_session_facts CoreInitRollbackNetplay_def)

text \<open>
  C1, amended. A call to initialize rollback netplay while the session of the process is
  already initialized (and standard netplay is not active) returns success, reports no
  error and changes nothing, and so does \<^verbatim>\<open>Initialize\<close> on an object that is already
  initialized. \<^verbatim>\<open>Initialize\<close> on another, uninitialized object while some instance is
  registered as active fails and reports that another instance is already active, changing
  nothing else.
\<close>

theorem init_while_active:
  "(\<not> l_HasInitNetplay s \<and> l_HasInitRollbackNetplay s \<longrightarrow>
      CoreInitRollbackNetplay g new_object frameDelay address port player maxPl s = (True, s)) \<and>
   (initialized (impls s this) \<longrightarrow>
      Initialize g this address port player maxPl frameDelay s = (True, s)) \<and>
   (\<not> initialized (impls s this) \<and> instancePtr s \<noteq> 0 \<longrightarrow>
      Initialize g this address port player maxPl frameDelay s =
        (False, s\<lparr>core_error := ''RollbackNetplay: Another instance is already active''\<rparr>))"
  by (simp add: CoreInitRollbackNetplay_def Initialize_def CoreSetError_def)

theorem init_while_active_witness:
  "CoreInitRollbackNetplay ggpo_accepting 6 1 ''127.0.0.1'' 7000 2 4 process_in_session =
     (True, process_in_session) \<and>
   Initialize ggpo_accepting 5 ''127.0.0.1'' 7000 2 4 1 process_in_session =
     (True, process_in_session) \<and>
   Initialize ggpo_accepting 9 ''127.0.0.1'' 7000 2 4 1 process_in_session =
     (False, process_in_session
        \<lparr>core_error := ''RollbackNetplay: Another instance is already active''\<rparr>)"
  using init_while_active
      [of process_in_session ggpo_accepting 6 1 "''127.0.0.1''" 7000 2 4 5]
    init_while_active
      [of process_in_session ggpo_accepting 6 1 "''127.0.0.1''" 7000 2 4 9]
  by (simp add: process_in_session_facts)

section \<open>Local input\<close>

text \<open>
  C10. On an initialized session (\<open>initialized\<close> set and a GGPO session present),
  \<^verbatim>\<open>AddLocalInput\<close> increments \<open>currentInputSequence\<close> by exactly one (in 32-bit unsigned
  arithmetic) whatever GGPO answers to the submission: the returned state is the old one
  with only that counter incremented, while the result tells whether GGPO accepted the
  input. The control-surface function forwards to it for the session of the process.
\<close>

theorem add_local_input_increments_sequence:
  assumes "initialized (impls s this)" and "ggpoSession (impls s this) \<noteq> 0"
  shows "currentInputSequence (impls (snd (AddLocalInput g this input s)) this) =
           currentInputSequence (impls s this) + 1 \<and>
         snd (AddLocalInput g this input s) =
           s\<lparr>impls := (impls s)(this := (impls s this)
                \<lparr>currentInputSequence := currentInputSequence (impls s this) + 1\<rparr>)\<rparr> \<and>
         fst (AddLocalInput g this input s) = (add_local_input_result g = GGPO_OK) \<and>
         (l_HasInitRollbackNetplay s \<and> l_RollbackNetplay s = this \<and> this \<noteq> 0 \<longrightarrow>
            CoreRollbackNetplayAddLocalInput g input s = AddLocalInput g this input s)"
  using assms by (simp add: AddLocalInput_def CoreRollbackNetplayAddLocalInput_def Let_def)

theorem add_local_input_increments_sequence_witness:
  "\<not> fst (CoreRollbackNetplayAddLocalInput ggpo_rejecting_input (\<lambda>_. 0) process_in_session) \<and>
   currentInputSequence (impls process_in_session 5) = 0 \<and>
   currentInputSequence
     (impls (snd (CoreRollbackNetplayAddLocalInput ggpo_rejecting_input (\<lambda>_. 0)
                    process_in_session)) 5) = 1"
  using add_local_input_increments_sequence
      [of process_in_session 5 ggpo_rejecting_input "\<lambda>_. 0"]
  by (simp add: process_in_session_facts ggpo_rejecting_input_def ggpo_accepting_def)


section \<open>Metrics under network events\<close>

lemma OnEvent_Callback_instancePtr:
  "OnEvent_Callback g event s = Some s' \<Longrightarrow> instancePtr s' = instancePtr s"
  by (auto simp: OnEvent_Callback_def Let_def split: if_splits GGPOEvent.splits)

lemma UpdateMetrics_counters:
  "\<not> is_reset_event event \<Longrightarrow>
   rollbackFrames (UpdateMetrics g event m) = rollbackFrames m \<and>
   totalRollbacks (UpdateMetrics g event m) = totalRollbacks m \<and>
   maxRollbackFrames (UpdateMetrics g event m) = maxRollbackFrames m"
  by (cases event) (auto simp: UpdateMetrics_def is_reset_event_def Let_def split: option.splits)

lemma OnEvent_Callback_monotone:
  assumes "OnEvent_Callback g event s = Some s'" and "\<not> is_reset_event event"
  shows "rollbackFrames (session_metrics s) \<le> rollbackFrames (session_metrics s') \<and>
         totalRollbacks (session_metrics s) \<le> totalRollbacks (session_metrics s') \<and>
         maxRollbackFrames (session_metrics s) \<le> maxRollbackFrames (session_metrics s')"
proof (cases "instancePtr s = 0")
  case True
  with assms(1) show ?thesis by (simp add: OnEvent_Callback_def)
next
  case False
  note counters = UpdateMetrics_counters [OF assms(2), of g "metrics (impls s (instancePtr s))"]
  show ?thesis
  proof (cases event)
    case (GGPO_EVENTCODE_TIMESYNC frames_ahead)
    with assms(1) False counters show ?thesis
      by (auto simp: OnEvent_Callback_def session_metrics_def Let_def split: if_splits)
  qed (use assms(1) False counters in
        \<open>auto simp: OnEvent_Callback_def session_metrics_def Let_def\<close>)
qed

lemma OnEvent_Callback_reset:
  assumes "is_reset_event event" and "instancePtr s \<noteq> 0"
  shows "\<exists>s'. OnEvent_Callback g event s = Some s' \<and>
           rollbackFrames (session_metrics s') = 0 \<and>
           totalRollbacks (session_metrics s') = 0 \<and>
           maxRollbackFrames (session_metrics s') = 0"
  using assms
  by (auto simp: is_reset_event_def OnEvent_Callback_def UpdateMetrics_def session_metrics_def
      RollbackMetrics_Reset_def Let_def split: option.splits)

text \<open>
  The callback is defined as long as the two sums stay within \<^verbatim>\<open>INT_MAX\<close>.
\<close>

lemma OnEvent_Callback_defined:
  assumes "\<And>n. event = GGPO_EVENTCODE_TIMESYNC n \<Longrightarrow>
             rollbackFrames (session_metrics s) + n \<le> INT_MAX \<and>
             totalRollbacks (session_metrics s) < INT_MAX"
  shows "\<exists>s'. OnEvent_Callback g event s = Some s'"
proof (cases event)
  case (GGPO_EVENTCODE_TIMESYNC n)
  with assms [of n] show ?thesis
    by (auto simp: OnEvent_Callback_def UpdateMetrics_def session_metrics_def Let_def
        split: option.splits)
qed (auto simp: OnEvent_Callback_def Let_def)

text \<open>
  C6, as stated, fails. In the session of \<open>process_in_session\<close>, a time-sync event with 3
  frames ahead brings the three counters to 3, 1 and 3; the following
  disconnected-from-peer event brings all three back to 0.
\<close>

theorem metrics_monotone_counterexample:
  "map_option (rollbackFrames \<circ> session_metrics)
     (OnEvents [(ggpo_accepting, GGPO_EVENTCODE_TIMESYNC 3)] process_in_session) = Some 3 \<and>
   map_option (totalRollbacks \<circ> session_metrics)
     (OnEvents [(ggpo_accepting, GGPO_EVENTCODE_TIMESYNC 3)] process_in_session) = Some 1 \<and>
   map_option (maxRollbackFrames \<circ> session_metrics)
     (OnEvents [(ggpo_accepting, GGPO_EVENTCODE_TIMESYNC 3)] process_in_session) = Some 3 \<and>
   map_option (rollbackFrames \<circ> session_metrics)
     (OnEvents [(ggpo_accepting, GGPO_EVENTCODE_TIMESYNC 3),
                (ggpo_accepting, GGPO_EVENTCODE_DISCONNECTED_FROM_PEER)] process_in_session) = Some 0 \<and>
   map_option (totalRollbacks \<circ> session_metrics)
     (OnEvents [(ggpo_accepting, GGPO_EVENTCODE_TIMESYNC 3),
                (ggpo_accepting, GGPO_EVENTCODE_DISCONNECTED_FROM_PEER)] process_in_session) = Some 0 \<and>
   map_option (maxRollbackFrames \<circ> session_metrics)
     (OnEvents [(ggpo_accepting, GGPO_EVENTCODE_TIMESYNC 3),
                (ggpo_accepting, GGPO_EVENTCODE_DISCONNECTED_FROM_PEER)] process_in_session) = Some 0"
  by (simp add: OnEvent_Callback_def UpdateMetrics_def session_metrics_def
      process_in_session_facts RollbackNetplayImpl_new_def RollbackMetrics_Reset_def
      ggpo_accepting_def INT_MAX_def Let_def)

text \<open>
  C6, amended. Across any sequence of processed network events that contains no
  connected-to-peer and no disconnected-from-peer event, the fields \<open>rollbackFrames\<close>,
  \<open>totalRollbacks\<close> and \<open>maxRollbackFrames\<close> of the session's metrics never decrease (as
  long as no counter passes \<^verbatim>\<open>INT_MAX\<close>). A connected-to-peer or disconnected-from-peer
  event resets the three fields to 0.
\<close>

theorem metrics_monotone_without_reset:
  "(OnEvents events s = Some s' \<and> (\<forall>ge \<in> set events. \<not> is_reset_event (snd ge)) \<longrightarrow>
      instancePtr s' = instancePtr s \<and>
      rollbackFrames (session_metrics s) \<le> rollbackFrames (session_metrics s') \<and>
      totalRollbacks (session_metrics s) \<le> totalRollbacks (session_metrics s') \<and>
      maxRollbackFrames (session_metrics s) \<le> maxRollbackFrames (session_metrics s')) \<and>
   (is_reset_event event \<and> instancePtr s \<noteq> 0 \<longrightarrow>
      (\<exists>s''. OnEvent_Callback g event s = Some s'' \<and>
         rollbackFrames (session_metrics s'') = 0 \<and>
         totalRollbacks (session_metrics s'') = 0 \<and>
         maxRollbackFrames (session_metrics s'') = 0))"
proof -
  have "OnEvents events s = Some s' \<Longrightarrow> \<forall>ge \<in> set events. \<not> is_reset_event (snd ge) \<Longrightarrow>
      instancePtr s' = instancePtr s \<and>
      rollbackFrames (session_metrics s) \<le> rollbackFrames (session_metrics s') \<and>
      totalRollbacks (session_metrics s) \<le> totalRollbacks (session_metrics s') \<and>
      maxRollbackFrames (session_metrics s) \<le> maxRollbackFrames (session_metrics s')"
  proof (induction events arbitrary: s)
    case Nil
    then show ?case by simp
  next
    case (Cons ge rest)
    obtain g0 e0 where ge: "ge = (g0, e0)" by (cases ge)
    from Cons.prems(1) ge obtain s1 where
      step: "OnEvent_Callback g0 e0 s = Some s1" and tail: "OnEvents rest s1 = Some s'"
      by (auto split: option.splits)
    from Cons.prems(2) ge have e0: "\<not> is_reset_event e0"
      and rest: "\<forall>ge \<in> set rest. \<not> is_reset_event (snd ge)" by simp_all
    from OnEvent_Callback_monotone [OF step e0] OnEvent_Callback_instancePtr [OF step]
      Cons.IH [OF tail rest]
    show ?case by simp
  qed
  with OnEvent_Callback_reset [of event s g] show ?thesis by blast
qed

theorem metrics_monotone_without_reset_witness:
  "map_option (rollbackFrames \<circ> session_metrics)
     (OnEvents [(ggpo_accepting, GGPO_EVENTCODE_TIMESYNC 3), (ggpo_accepting, GGPO_EVENTCODE_RUNNING),
                (ggpo_accepting, GGPO_EVENTCODE_TIMESYNC 2)] process_in_session) = Some 5 \<and>
   rollbackFrames (session_metrics process_in_session) \<le> 5 \<and>
   map_option (totalRollbacks \<circ> session_metrics)
     (OnEvent_Callback ggpo_accepting GGPO_EVENTCODE_CONNECTED_TO_PEER process_in_session) = Some 0"
proof -
  let ?evs = "[(ggpo_accepting, GGPO_EVENTCODE_TIMESYNC 3), (ggpo_accepting, GGPO_EVENTCODE_RUNNING),
               (ggpo_accepting, GGPO_EVENTCODE_TIMESYNC 2)]"
  obtain s' where run: "OnEvents ?evs process_in_session = Some s'"
    and five: "rollbackFrames (session_metrics s') = 5"
    by (simp add: OnEvent_Callback_def UpdateMetrics_def session_metrics_def
        process_in_session_facts RollbackNetplayImpl_new_def ggpo_accepting_def INT_MAX_def
        Let_def)
  have no_reset: "\<forall>ge \<in> set ?evs. \<not> is_reset_event (snd ge)"
    by (simp add: is_reset_event_def)
  have reset: "is_reset_event GGPO_EVENTCODE_CONNECTED_TO_PEER"
    by (simp add: is_reset_event_def)
  have active: "instancePtr process_in_session \<noteq> 0"
    by (simp add: process_in_session_facts)
  from metrics_monotone_without_reset
    [of ?evs process_in_session s' GGPO_EVENTCODE_CONNECTED_TO_PEER ggpo_accepting]
    run no_reset reset active five
  show ?thesis by auto
qed


section \<open>Saving and loading snapshots\<close>

lemma count_save_fields:
  "g_stateBufferPool (count_save s) = g_stateBufferPool s"
  "heap (count_save s) = heap s"
  "emu_commands (count_save s) = emu_commands s"
  "g_currentInputSequence (count_save s) = g_currentInputSequence s"
  "core_error (count_save s) = core_error s"
  "fallbackRng (count_save s) = fallbackRng s"
  by (simp_all add: count_save_def Let_def)

lemma getBuffer_bufferSize: "m_bufferSize (snd (getBuffer mr pool)) = m_bufferSize pool"
  by (simp add: getBuffer_def Let_def)

lemma getBuffer_maxUncompressedSize:
  "getBuffer mr pool = (p, pool1) \<Longrightarrow> maxUncompressedSize pool1 = maxUncompressedSize pool"
  using getBuffer_bufferSize [of mr pool]
  by (simp add: maxUncompressedSize_def getBufferSize_def)

lemma mem_at_mem_put: "mem_at (mem_put m off m') off = m'"
  by (simp add: mem_at_def mem_put_def)

lemma uInt_sint: "uInt (sint (w::u32)) = unat w"
proof -
  have "sint w mod 2 ^ 32 = take_bit LENGTH(32) (sint w)"
    by (simp add: take_bit_eq_mod)
  also have "\<dots> = uint w"
    by (simp only: uint_sint)
  finally show ?thesis
    by (simp add: uInt_def)
qed

lemma uInt_to_int: "uInt (to_int n) = n mod 2 ^ 32"
  by (simp add: to_int_def uInt_sint unat_of_nat)

lemma uInt_1024: "uInt 1024 = 1024"
  by (simp add: uInt_def)

lemma SaveEmulatorState_compressed:
  assumes gb: "getBuffer (malloc_ret h) (g_stateBufferPool s) = (p, pool1)" and p: "p \<noteq> 0"
    and sv: "state_save h (to_int (maxUncompressedSize (g_stateBufferPool s)))
               (mem_at (heap s p) (36 + 1024)) = (True, saved)"
    and cd: "CompressData h saved
               (to_int (actualUncompressedSize saved (maxUncompressedSize (g_stateBufferPool s))))
               1024 = (True, written, csz)"
  shows "fst (SaveEmulatorState h frm s) =
           Some (p, 36 + csz,
             CalculateChecksum h
               (mem_at (heap (snd (SaveEmulatorState h frm s)) p) (36 + 1024))
               (actualUncompressedSize saved (maxUncompressedSize (g_stateBufferPool s))))"
    and "heap (snd (SaveEmulatorState h frm s)) p =
           write_bytes (write_bytes (mem_put (heap s p) (36 + 1024) saved) 36 written) 0
             (RollbackStateHeader_bytes
                \<lparr>magic = ROLLBACK_STATE_MAGIC, version = ROLLBACK_STATE_VERSION,
                 frame = word_of_int frm,
                 uncompressedSize = word_of_nat
                   (actualUncompressedSize saved (maxUncompressedSize (g_stateBufferPool s))),
                 compressedSize = word_of_int csz,
                 randState = fst (GetEmulatorRngState h s),
                 inputSequence = g_currentInputSequence s,
                 reserved_0 = 0, reserved_1 = 0\<rparr>)"
  using p sv cd getBuffer_maxUncompressedSize [OF gb]
  by (simp_all add: SaveEmulatorState_def Let_def count_save_fields gb sizeof_RollbackStateHeader_def
      mem_at_mem_put stop_save_timer_def CoreSetError_def GetEmulatorRngState_def
      split: option.splits)

lemma write_bytes_outside:
  "i < off \<or> off + length bs \<le> i \<Longrightarrow> write_bytes m off bs i = m i"
  by (auto simp: write_bytes_def)

lemma write_bytes_inside:
  "off \<le> i \<Longrightarrow> i < off + length bs \<Longrightarrow> write_bytes m off bs i = bs ! (i - off)"
  by (simp add: write_bytes_def)

lemma read_bytes_write_bytes: "read_bytes (write_bytes m off bs) off (length bs) = bs"
  by (rule nth_equalityI) (simp_all add: read_bytes_def write_bytes_def)

lemma read_bytes_cong:
  "(\<And>i. off \<le> i \<Longrightarrow> i < off + n \<Longrightarrow> m i = m' i) \<Longrightarrow> read_bytes m off n = read_bytes m' off n"
  by (simp add: read_bytes_def)

lemma length_le32 [simp]: "length (le32 w) = 4"
  by (simp add: le32_def)

lemma length_RollbackStateHeader_bytes [simp]: "length (RollbackStateHeader_bytes hdr) = 36"
  by (simp add: RollbackStateHeader_bytes_def)

lemma rd32_bytes:
  "ucast (ucast w :: byte) OR push_bit 8 (ucast (ucast (drop_bit 8 w) :: byte)) OR
   push_bit 16 (ucast (ucast (drop_bit 16 w) :: byte)) OR
   push_bit 24 (ucast (ucast (drop_bit 24 w) :: byte)) = (w::u32)"
  apply (rule bit_word_eqI)
  apply (auto simp: bit_simps)
  subgoal for n by (cases "n < 24") (simp_all add: not_less)
  done

lemma RollbackStateHeader_roundtrip:
  "RollbackStateHeader_of_mem (write_bytes m 0 (RollbackStateHeader_bytes hdr)) = hdr"
  by (simp add: RollbackStateHeader_of_mem_def rd32_def write_bytes_def
      RollbackStateHeader_bytes_def le32_def rd32_bytes)

lemma CompressData_reserved:
  "CompressData h src (to_int a) 1024 =
     (if \<not> deflateInit_ok h then (False, [], 1024)
      else if length (deflate_stream h (read_bytes src 0 (a mod 2 ^ 32))) \<le> 1024
      then (True, deflate_stream h (read_bytes src 0 (a mod 2 ^ 32)),
            int (length (deflate_stream h (read_bytes src 0 (a mod 2 ^ 32)))))
      else (False, take 1024 (deflate_stream h (read_bytes src 0 (a mod 2 ^ 32))), 1024))"
  by (simp add: CompressData_def uInt_to_int uInt_1024 Let_def)

lemma SaveEmulatorState_SomeD:
  assumes "fst (SaveEmulatorState h frm s) = Some (buffer, len, checksum)"
  shows "\<exists>pool1 saved written csz.
           getBuffer (malloc_ret h) (g_stateBufferPool s) = (buffer, pool1) \<and> buffer \<noteq> 0 \<and>
           state_save h (to_int (maxUncompressedSize (g_stateBufferPool s)))
             (mem_at (heap s buffer) (36 + 1024)) = (True, saved) \<and>
           CompressData h saved
             (to_int (actualUncompressedSize saved (maxUncompressedSize (g_stateBufferPool s))))
             1024 = (True, written, csz)"
proof -
  obtain p pool1 where gb: "getBuffer (malloc_ret h) (g_stateBufferPool s) = (p, pool1)"
    by (cases "getBuffer (malloc_ret h) (g_stateBufferPool s)")
  obtain ok saved where sv:
    "state_save h (to_int (maxUncompressedSize (g_stateBufferPool s)))
       (mem_at (heap s p) (36 + 1024)) = (ok, saved)"
    by (cases "state_save h (to_int (maxUncompressedSize (g_stateBufferPool s)))
       (mem_at (heap s p) (36 + 1024))")
  obtain cok written csz where cd:
    "CompressData h saved
       (to_int (actualUncompressedSize saved (maxUncompressedSize (g_stateBufferPool s))))
       1024 = (cok, written, csz)"
    by (cases "CompressData h saved
       (to_int (actualUncompressedSize saved (maxUncompressedSize (g_stateBufferPool s))))
       1024")
  from assms gb sv cd getBuffer_maxUncompressedSize [OF gb]
  have "p \<noteq> 0 \<and> ok \<and> cok \<and> p = buffer"
    by (auto simp: SaveEmulatorState_def Let_def count_save_fields split_beta
        sizeof_RollbackStateHeader_def mem_at_mem_put split: if_splits)
  with gb sv cd show ?thesis by auto
qed

lemma saved_state_intact:
  assumes "length written \<le> 1024" and "length hdr = 36"
  shows "mem_at (write_bytes (write_bytes (mem_put m (36 + 1024) saved) 36 written) 0 hdr)
           (36 + 1024) = saved"
  using assms by (auto simp: mem_at_def write_bytes_def mem_put_def)

lemma compressed_bytes_intact:
  assumes "length hdr = 36"
  shows "read_bytes (write_bytes (write_bytes m 36 written) 0 hdr) 36 (length written) = written"
proof -
  have "read_bytes (write_bytes (write_bytes m 36 written) 0 hdr) 36 (length written) =
        read_bytes (write_bytes m 36 written) 36 (length written)"
    using assms by (intro read_bytes_cong) (simp add: write_bytes_outside)
  then show ?thesis by (simp add: read_bytes_write_bytes)
qed

lemma CompressData_True_D:
  assumes "CompressData h src (to_int a) 1024 = (True, written, csz)"
  shows "written = deflate_stream h (read_bytes src 0 (a mod 2 ^ 32))"
    and "csz = int (length written)" and "length written \<le> 1024"
  using assms by (auto simp: CompressData_reserved split: if_splits)

text \<open>
  C3. When a save succeeds, the checksum out-parameter is the CRC-32 of the uncompressed
  payload: the first \<open>uncompressedSize\<close> bytes (the size the header records) of the state as
  the emulator's save callback wrote it. Those bytes are still in the buffer, behind the
  reserved region, after compression, and the compressed payload that follows the header is
  the deflate stream of the same bytes; the checksum is computed neither from that stream
  nor from the envelope.
\<close>

theorem save_checksum_is_crc32_of_uncompressed_payload:
  assumes "fst (SaveEmulatorState h frm s) = Some (buffer, len, checksum)"
  shows "let s' = snd (SaveEmulatorState h frm s);
             saved = snd (state_save h (to_int (maxUncompressedSize (g_stateBufferPool s)))
                       (mem_at (heap s buffer) (sizeof_RollbackStateHeader + 1024)));
             payload = read_bytes saved 0
                         (unat (uncompressedSize (RollbackStateHeader_of_mem (heap s' buffer))))
         in checksum = crc32 h payload \<and>
            mem_at (heap s' buffer) (sizeof_RollbackStateHeader + 1024) = saved \<and>
            len = int sizeof_RollbackStateHeader + int (length (deflate_stream h payload)) \<and>
            read_bytes (heap s' buffer) sizeof_RollbackStateHeader
              (length (deflate_stream h payload)) = deflate_stream h payload"
proof -
  let ?mx = "maxUncompressedSize (g_stateBufferPool s)"
  from SaveEmulatorState_SomeD [OF assms] obtain pool1 saved written csz where
    gb: "getBuffer (malloc_ret h) (g_stateBufferPool s) = (buffer, pool1)" and nz: "buffer \<noteq> 0"
    and sv: "state_save h (to_int ?mx) (mem_at (heap s buffer) (36 + 1024)) = (True, saved)"
    and cd: "CompressData h saved (to_int (actualUncompressedSize saved ?mx)) 1024 =
               (True, written, csz)"
    by blast
  let ?a = "actualUncompressedSize saved ?mx"
  let ?payload = "read_bytes saved 0 (?a mod 2 ^ 32)"
  note cdD = CompressData_True_D [OF cd]
  note res = SaveEmulatorState_compressed [OF gb nz sv cd, of frm]
  let ?s' = "snd (SaveEmulatorState h frm s)"
  have intact: "mem_at (heap ?s' buffer) (36 + 1024) = saved"
    unfolding res(2) using cdD(3) by (intro saved_state_intact) simp_all
  have size: "unat (uncompressedSize (RollbackStateHeader_of_mem (heap ?s' buffer))) = ?a mod 2 ^ 32"
    unfolding res(2) by (simp add: RollbackStateHeader_roundtrip unat_of_nat)
  have sum: "checksum = crc32 h ?payload"
    using assms res(1) intact by (simp add: CalculateChecksum_def)
  have len: "len = 36 + int (length (deflate_stream h ?payload))"
    using assms res(1) cdD(1,2) by simp
  have stream: "read_bytes (heap ?s' buffer) 36 (length (deflate_stream h ?payload)) =
                  deflate_stream h ?payload"
    unfolding res(2) cdD(1) [symmetric] by (intro compressed_bytes_intact) simp
  from sum intact len stream size sv show ?thesis
    by (simp add: Let_def sizeof_RollbackStateHeader_def)
qed

lemma small_pool_mx: "maxUncompressedSize (StateBufferPool_new 1 1064 4) = 4"
  by (simp add: maxUncompressedSize_def getBufferSize_def StateBufferPool_new_def
      sizeof_RollbackStateHeader_def)

lemma small_scan: "actualUncompressedSize (write_bytes m 0 [1, 2, 0, 0]) 4 = 2"
  by (simp add: actualUncompressedSize_def write_bytes_def numeral_eq_Suc)

lemma small_save:
  "fst (SaveEmulatorState host_small 7 process_small_pool) = Some (1, 38, 2)"
proof -
  have gb: "getBuffer (malloc_ret host_small) (g_stateBufferPool process_small_pool) =
              (1, (StateBufferPool_new 1 1064 4)\<lparr>m_freeBuffers := [], m_usedBuffers := [1]\<rparr>)"
    by (simp add: getBuffer_def process_small_pool_def StateBufferPool_new_def)
  have pool: "g_stateBufferPool process_small_pool = StateBufferPool_new 1 1064 4"
    by (simp add: process_small_pool_def)
  have sv: "state_save host_small (to_int (maxUncompressedSize (g_stateBufferPool process_small_pool)))
              (mem_at (heap process_small_pool 1) (36 + 1024)) =
            (True, write_bytes (mem_at (heap process_small_pool 1) (36 + 1024)) 0 [1, 2, 0, 0])"
    by (simp add: host_small_def)
  have cd: "CompressData host_small
              (write_bytes (mem_at (heap process_small_pool 1) (36 + 1024)) 0 [1, 2, 0, 0])
              (to_int (actualUncompressedSize
                 (write_bytes (mem_at (heap process_small_pool 1) (36 + 1024)) 0 [1, 2, 0, 0])
                 (maxUncompressedSize (g_stateBufferPool process_small_pool))))
              1024 = (True, [1, 2], 2)"
    unfolding pool small_pool_mx small_scan CompressData_reserved
    by (simp add: host_small_def read_bytes_def write_bytes_def upt_rec)
  have one: "(1::nat) \<noteq> 0" by simp
  note res = SaveEmulatorState_compressed [OF gb one sv cd, of 7]
  have "mem_at (heap (snd (SaveEmulatorState host_small 7 process_small_pool)) 1) (36 + 1024) =
          write_bytes (mem_at (heap process_small_pool 1) (36 + 1024)) 0 [1, 2, 0, 0]"
    unfolding res(2) by (intro saved_state_intact) simp_all
  with res(1) have "fst (SaveEmulatorState host_small 7 process_small_pool) =
      Some (1, 36 + 2, CalculateChecksum host_small
         (write_bytes (mem_at (heap process_small_pool 1) (36 + 1024)) 0 [1, 2, 0, 0]) 2)"
    unfolding pool small_pool_mx small_scan by simp
  then show ?thesis
    by (simp add: CalculateChecksum_def host_small_def read_bytes_def)
qed

theorem save_checksum_is_crc32_of_uncompressed_payload_witness:
  "fst (SaveEmulatorState host_small 7 process_small_pool) = Some (1, 38, 2) \<and>
   (let s' = snd (SaveEmulatorState host_small 7 process_small_pool);
        saved = snd (state_save host_small
                       (to_int (maxUncompressedSize (g_stateBufferPool process_small_pool)))
                       (mem_at (heap process_small_pool 1) (sizeof_RollbackStateHeader + 1024)));
        payload = read_bytes saved 0
                    (unat (uncompressedSize (RollbackStateHeader_of_mem (heap s' 1))))
    in 2 = crc32 host_small payload \<and>
       mem_at (heap s' 1) (sizeof_RollbackStateHeader + 1024) = saved \<and>
       38 = int sizeof_RollbackStateHeader + int (length (deflate_stream host_small payload)) \<and>
       read_bytes (heap s' 1) sizeof_RollbackStateHeader
         (length (deflate_stream host_small payload)) = deflate_stream host_small payload)"
  using save_checksum_is_crc32_of_uncompressed_payload [OF small_save] small_save
  by simp

lemma scan_back_all_zero: "(\<And>i. i < n \<Longrightarrow> t i = 0) \<Longrightarrow> scan_back t mx n = mx"
  by (induction n) simp_all

lemma scan_back_last_nonzero:
  "\<exists>i<n. t i \<noteq> 0 \<Longrightarrow>
   0 < scan_back t mx n \<and> scan_back t mx n \<le> n \<and> t (scan_back t mx n - 1) \<noteq> 0 \<and>
   (\<forall>j. scan_back t mx n \<le> j \<and> j < n \<longrightarrow> t j = 0)"
proof (induction n)
  case 0
  then show ?case by simp
next
  case (Suc n)
  show ?case
  proof (cases "t n = 0")
    case True
    with Suc.prems have "\<exists>i<n. t i \<noteq> 0"
      by (metis less_Suc_eq)
    from Suc.IH [OF this] have
      pos: "0 < scan_back t mx n" and le: "scan_back t mx n \<le> n"
      and nz: "t (scan_back t mx n - 1) \<noteq> 0"
      and tail: "\<And>j. scan_back t mx n \<le> j \<Longrightarrow> j < n \<Longrightarrow> t j = 0"
      by blast+
    have "t j = 0" if "scan_back t mx n \<le> j" and "j < Suc n" for j
    proof (cases "j = n")
      case True
      with \<open>t n = 0\<close> show ?thesis by simp
    next
      case False
      with that tail show ?thesis by simp
    qed
    with True pos le nz show ?thesis by simp

  next
    case False
    then show ?thesis by auto
  qed
qed

text \<open>
  C8. The \<open>uncompressedSize\<close> a successful save records in the header is the result of the
  backward scan of the buffer the emulator saved into (truncated to 32 bits, which changes
  nothing for a buffer below 4 GiB). That result is the full maximum uncompressed size when
  every byte of the buffer is zero, and otherwise the 1-based position of the last non-zero
  byte: the byte at that position is non-zero and every byte after it, up to the maximum,
  is zero.
\<close>

theorem save_uncompressed_size_by_backward_scan:
  assumes "fst (SaveEmulatorState h frm s) = Some (buffer, len, checksum)"
  shows "let s' = snd (SaveEmulatorState h frm s);
             mx = maxUncompressedSize (g_stateBufferPool s);
             saved = snd (state_save h (to_int mx)
                       (mem_at (heap s buffer) (sizeof_RollbackStateHeader + 1024)));
             a = actualUncompressedSize saved mx
         in uncompressedSize (RollbackStateHeader_of_mem (heap s' buffer)) = word_of_nat a \<and>
            (mx < 2 ^ 32 \<longrightarrow>
               unat (uncompressedSize (RollbackStateHeader_of_mem (heap s' buffer))) = a) \<and>
            ((\<forall>i<mx. saved i = 0) \<longrightarrow> a = mx) \<and>
            ((\<exists>i<mx. saved i \<noteq> 0) \<longrightarrow>
               0 < a \<and> a \<le> mx \<and> saved (a - 1) \<noteq> 0 \<and> (\<forall>j. a \<le> j \<and> j < mx \<longrightarrow> saved j = 0))"
proof -
  let ?mx = "maxUncompressedSize (g_stateBufferPool s)"
  from SaveEmulatorState_SomeD [OF assms] obtain pool1 saved written csz where
    gb: "getBuffer (malloc_ret h) (g_stateBufferPool s) = (buffer, pool1)" and nz: "buffer \<noteq> 0"
    and sv: "state_save h (to_int ?mx) (mem_at (heap s buffer) (36 + 1024)) = (True, saved)"
    and cd: "CompressData h saved (to_int (actualUncompressedSize saved ?mx)) 1024 =
               (True, written, csz)"
    by blast
  let ?a = "actualUncompressedSize saved ?mx"
  let ?s' = "snd (SaveEmulatorState h frm s)"
  note res = SaveEmulatorState_compressed [OF gb nz sv cd, of frm]
  have field: "uncompressedSize (RollbackStateHeader_of_mem (heap ?s' buffer)) = word_of_nat ?a"
    unfolding res(2) by (simp add: RollbackStateHeader_roundtrip)
  have zero: "(\<forall>i<?mx. saved i = 0) \<longrightarrow> ?a = ?mx"
    by (simp add: actualUncompressedSize_def scan_back_all_zero)
  have last: "(\<exists>i<?mx. saved i \<noteq> 0) \<longrightarrow>
      0 < ?a \<and> ?a \<le> ?mx \<and> saved (?a - 1) \<noteq> 0 \<and> (\<forall>j. ?a \<le> j \<and> j < ?mx \<longrightarrow> saved j = 0)"
    using scan_back_last_nonzero [of ?mx saved ?mx]
    by (simp add: actualUncompressedSize_def)
  have le: "?a \<le> ?mx"
  proof (cases "\<exists>i<?mx. saved i \<noteq> 0")
    case True
    with last show ?thesis by blast
  next
    case False
    with zero show ?thesis by simp
  qed
  have small: "?mx < 2 ^ 32 \<longrightarrow>
      unat (uncompressedSize (RollbackStateHeader_of_mem (heap ?s' buffer))) = ?a"
    unfolding field using le by (simp add: unat_of_nat)
  have sv': "snd (state_save h (to_int ?mx)
               (mem_at (heap s buffer) (sizeof_RollbackStateHeader + 1024))) = saved"
    using sv by (simp add: sizeof_RollbackStateHeader_def)
  show ?thesis
    unfolding Let_def sv' by (intro conjI field small zero last)
qed

theorem save_uncompressed_size_by_backward_scan_witness:
  "fst (SaveEmulatorState host_small 7 process_small_pool) = Some (1, 38, 2) \<and>
   uncompressedSize (RollbackStateHeader_of_mem
     (heap (snd (SaveEmulatorState host_small 7 process_small_pool)) 1)) = 2 \<and>
   (\<exists>i<4. write_bytes (\<lambda>_. 0) 0 [1, 2, 0, 0::byte] i \<noteq> 0) \<and>
   write_bytes (\<lambda>_. 0) 0 [1, 2, 0, 0::byte] (2 - 1) \<noteq> 0"
proof -
  have pool: "g_stateBufferPool process_small_pool = StateBufferPool_new 1 1064 4"
    by (simp add: process_small_pool_def)
  have saved: "snd (state_save host_small (to_int 4)
                 (mem_at (heap process_small_pool 1) (sizeof_RollbackStateHeader + 1024))) =
               write_bytes (\<lambda>_. 0) 0 [1, 2, 0, 0]"
    by (simp add: host_small_def process_small_pool_def process_start_def mem_at_def)
  have ex: "\<exists>i<4. write_bytes (\<lambda>_. 0) 0 [1, 2, 0, 0::byte] i \<noteq> 0"
    by (rule exI [of _ 0]) (simp add: write_bytes_def)
  note scan = save_uncompressed_size_by_backward_scan
    [OF small_save, unfolded Let_def pool small_pool_mx saved small_scan]
  from scan have field: "uncompressedSize (RollbackStateHeader_of_mem
     (heap (snd (SaveEmulatorState host_small 7 process_small_pool)) 1)) = word_of_nat 2"
    by (rule conjunct1)
  from scan ex have last: "write_bytes (\<lambda>_. 0) 0 [1, 2, 0, 0::byte] (2 - 1) \<noteq> 0"
    by blast
  from small_save field ex last show ?thesis
    by (intro conjI) simp_all
qed

lemma SaveEmulatorState_compress_failed:
  assumes gb: "getBuffer (malloc_ret h) (g_stateBufferPool s) = (p, pool1)" and p: "p \<noteq> 0"
    and sv: "state_save h (to_int (maxUncompressedSize (g_stateBufferPool s)))
               (mem_at (heap s p) (36 + 1024)) = (True, saved)"
    and cd: "CompressData h saved
               (to_int (actualUncompressedSize saved (maxUncompressedSize (g_stateBufferPool s))))
               1024 = (False, written, csz)"
  shows "fst (SaveEmulatorState h frm s) = None"
    and "core_error (snd (SaveEmulatorState h frm s)) = ''Failed to compress state data''"
    and "g_stateBufferPool (snd (SaveEmulatorState h frm s)) = releaseBuffer p pool1"
  using p sv cd getBuffer_maxUncompressedSize [OF gb]
  by (simp_all add: SaveEmulatorState_def Let_def count_save_fields gb sizeof_RollbackStateHeader_def
      mem_at_mem_put stop_save_timer_def CoreSetError_def)

lemma release_after_get:
  assumes "getBuffer mr pool = (p, pool1)" and "p \<noteq> 0" and "p \<notin> set (m_usedBuffers pool)"
  shows "m_usedBuffers (releaseBuffer p pool1) = m_usedBuffers pool"
    and "p \<in> set (m_freeBuffers (releaseBuffer p pool1))"
  using assms
  by (auto simp: getBuffer_def releaseBuffer_def Let_def remove1_append split: if_splits)

text \<open>
  C9. The save points the emulator at offset \<open>sizeof(header) + 1024\<close> of the pool buffer and
  gives deflate exactly the 1024 bytes in between as output space. So once a buffer is
  obtained, the emulator has saved and deflate has initialised, the save fails exactly when
  the deflate stream of the state is longer than 1024 bytes, whatever the size of the pool
  buffer; it then reports the compression failure and releases the buffer: the list of
  buffers in use is what it was before the save and the buffer is on the free list.
\<close>

theorem save_fails_when_deflate_exceeds_reserve:
  assumes "getBuffer (malloc_ret h) (g_stateBufferPool s) = (p, pool1)" and "p \<noteq> 0"
    and "p \<notin> set (m_usedBuffers (g_stateBufferPool s))"
    and "state_save h (to_int (maxUncompressedSize (g_stateBufferPool s)))
           (mem_at (heap s p) (sizeof_RollbackStateHeader + 1024)) = (True, saved)"
    and "deflateInit_ok h"
  shows "let s' = snd (SaveEmulatorState h frm s);
             payload = read_bytes saved 0
               (actualUncompressedSize saved (maxUncompressedSize (g_stateBufferPool s)) mod 2 ^ 32)
         in (fst (SaveEmulatorState h frm s) = None \<longleftrightarrow> 1024 < length (deflate_stream h payload)) \<and>
            (1024 < length (deflate_stream h payload) \<longrightarrow>
               core_error s' = ''Failed to compress state data'' \<and>
               m_usedBuffers (g_stateBufferPool s') = m_usedBuffers (g_stateBufferPool s) \<and>
               p \<in> set (m_freeBuffers (g_stateBufferPool s')))"
proof -
  let ?mx = "maxUncompressedSize (g_stateBufferPool s)"
  let ?payload = "read_bytes saved 0 (actualUncompressedSize saved ?mx mod 2 ^ 32)"
  let ?s' = "snd (SaveEmulatorState h frm s)"
  have sv: "state_save h (to_int ?mx) (mem_at (heap s p) (36 + 1024)) = (True, saved)"
    using assms(4) by (simp add: sizeof_RollbackStateHeader_def)
  show ?thesis
  proof (cases "1024 < length (deflate_stream h ?payload)")
    case True
    with assms(5) have cd: "CompressData h saved (to_int (actualUncompressedSize saved ?mx)) 1024 =
        (False, take 1024 (deflate_stream h ?payload), 1024)"
      by (simp add: CompressData_reserved)
    note failed = SaveEmulatorState_compress_failed [OF assms(1,2) sv cd, of frm]
    note released = release_after_get [OF assms(1,2,3)]
    from True failed released show ?thesis
      by (simp add: Let_def)
  next
    case False
    with assms(5) have cd: "CompressData h saved (to_int (actualUncompressedSize saved ?mx)) 1024 =
        (True, deflate_stream h ?payload, int (length (deflate_stream h ?payload)))"
      by (simp add: CompressData_reserved)
    from SaveEmulatorState_compressed(1) [OF assms(1,2) sv cd, of frm] False show ?thesis
      by (simp add: Let_def)
  qed
qed

theorem save_fails_when_deflate_exceeds_reserve_witness:
  "m_bufferSize (g_stateBufferPool (process_start 1)) = 8 * 1024 * 1024 \<and>
   fst (SaveEmulatorState host_incompressible 7 (process_start 1)) = None \<and>
   core_error (snd (SaveEmulatorState host_incompressible 7 (process_start 1))) =
     ''Failed to compress state data'' \<and>
   m_usedBuffers (g_stateBufferPool (snd (SaveEmulatorState host_incompressible 7 (process_start 1))))
     = [] \<and>
   1 \<in> set (m_freeBuffers (g_stateBufferPool
               (snd (SaveEmulatorState host_incompressible 7 (process_start 1)))))"
proof -
  have gb: "getBuffer (malloc_ret host_incompressible) (g_stateBufferPool (process_start 1)) =
      (1, (g_stateBufferPool (process_start 1))\<lparr>m_freeBuffers := [], m_usedBuffers := [1]\<rparr>)"
    by (simp add: getBuffer_def process_start_def StateBufferPool_new_def)
  have nz: "(1::nat) \<noteq> 0" by simp
  have unused: "1 \<notin> set (m_usedBuffers (g_stateBufferPool (process_start 1)))"
    by (simp add: process_start_def StateBufferPool_new_def)
  have sv: "state_save host_incompressible
              (to_int (maxUncompressedSize (g_stateBufferPool (process_start 1))))
              (mem_at (heap (process_start 1) 1) (sizeof_RollbackStateHeader + 1024)) =
            (True, write_bytes (mem_at (heap (process_start 1) 1)
                                  (sizeof_RollbackStateHeader + 1024)) 0 [1, 2, 0, 0])"
    by (simp add: host_incompressible_def host_small_def)
  have init: "deflateInit_ok host_incompressible"
    by (simp add: host_incompressible_def host_small_def)
  have long: "1024 < length (deflate_stream host_incompressible bs)" for bs
    by (simp add: host_incompressible_def host_small_def)
  have used: "m_usedBuffers (g_stateBufferPool (process_start 1)) = []"
    and size: "m_bufferSize (g_stateBufferPool (process_start 1)) = 8 * 1024 * 1024"
    by (simp_all add: process_start_def StateBufferPool_new_def)
  from save_fails_when_deflate_exceeds_reserve [OF gb nz unused sv init, of 7] long used size
  show ?thesis
    by (simp add: Let_def)
qed

lemma LoadEmulatorState_rejected:
  assumes "buffer = 0 \<or> int_to_size_t len \<le> sizeof_RollbackStateHeader \<or>
           magic (RollbackStateHeader_of_mem (heap s buffer)) \<noteq> ROLLBACK_STATE_MAGIC \<or>
           version (RollbackStateHeader_of_mem (heap s buffer)) \<noteq> ROLLBACK_STATE_VERSION \<or>
           unat (compressedSize (RollbackStateHeader_of_mem (heap s buffer)))
             + sizeof_RollbackStateHeader > int_to_size_t len"
  shows "LoadEmulatorState h buffer len s =
           (False, stop_load_timer h (CoreSetError
              (if buffer = 0 \<or> int_to_size_t len \<le> sizeof_RollbackStateHeader
               then ''Invalid state buffer or size''
               else if magic (RollbackStateHeader_of_mem (heap s buffer)) \<noteq> ROLLBACK_STATE_MAGIC
               then ''Invalid state format (wrong magic number)''
               else if version (RollbackStateHeader_of_mem (heap s buffer)) \<noteq> ROLLBACK_STATE_VERSION
               then ''Unsupported state version''
               else ''State buffer is smaller than expected'')
              (s\<lparr>g_stateMetrics := (g_stateMetrics s)
                   \<lparr>loadCount := loadCount (g_stateMetrics s) + 1\<rparr>\<rparr>)))"
proof (cases "buffer = 0 \<or> int_to_size_t len \<le> sizeof_RollbackStateHeader")
  case True
  then show ?thesis
    by (simp add: LoadEmulatorState_def Let_def split del: if_split)
next
  case c1: False
  show ?thesis
  proof (cases "magic (RollbackStateHeader_of_mem (heap s buffer)) \<noteq> ROLLBACK_STATE_MAGIC")
    case True
    with c1 show ?thesis
      by (simp add: LoadEmulatorState_def Let_def split del: if_split)
  next
    case c2: False
    show ?thesis
    proof (cases "version (RollbackStateHeader_of_mem (heap s buffer)) \<noteq> ROLLBACK_STATE_VERSION")
      case True
      with c1 c2 show ?thesis
        by (simp add: LoadEmulatorState_def Let_def split del: if_split)
    next
      case c3: False
      with assms c1 c2 have "unat (compressedSize (RollbackStateHeader_of_mem (heap s buffer)))
             + sizeof_RollbackStateHeader > int_to_size_t len"
        by blast
      with c1 c2 c3 show ?thesis
        by (simp add: LoadEmulatorState_def Let_def split del: if_split)
    qed
  qed
qed

lemma int_to_size_t_nonneg:
  assumes "0 \<le> len" and "len < 2 ^ 31"
  shows "int_to_size_t len = nat len"
proof -
  have "(2::int) ^ 31 \<le> 2 ^ 64"
    by (rule power_increasing) simp_all
  with assms(2) have "len < 2 ^ 64"
    by (rule less_le_trans)
  with assms(1) have "len mod 2 ^ 64 = len"
    by (rule mod_pos_pos_trivial)
  then show ?thesis
    by (simp only: int_to_size_t_def)
qed

text \<open>
  A negative \<open>len\<close> is not a length: converted to \<^verbatim>\<open>size_t\<close> it becomes a huge value that
  passes both size comparisons of \<^verbatim>\<open>LoadEmulatorState\<close>.
\<close>

lemma int_to_size_t_minus_1: "int_to_size_t (- 1) = 2 ^ 64 - 1"
  by (simp add: int_to_size_t_def)

lemma negative_length_passes_size_checks:
  "\<not> int_to_size_t (- 1) \<le> sizeof_RollbackStateHeader \<and>
   \<not> int_to_size_t (- 1) < unat (w :: u32) + sizeof_RollbackStateHeader"
proof -
  have "unat w < 2 ^ 32"
    using unsigned_less [of w] by simp
  then have "unat w + 36 < 2 ^ 32 + 36" by simp
  also have "(2::nat) ^ 32 + 36 \<le> 2 ^ 64 - 1" by simp
  finally show ?thesis
    by (simp add: int_to_size_t_minus_1 sizeof_RollbackStateHeader_def)
qed

lemma length_below_payload_end:
  assumes "0 \<le> len" and "len < int n + uint (w::u32)"
  shows "unat w + n > nat len"
proof -
  have "int (unat w) = uint w" by simp
  with assms(2) have "len < int (unat w + n)" by simp
  with assms(1) show ?thesis by (simp only: nat_less_iff)
qed

text \<open>
  For a length that is not negative the load does reject a malformed envelope: when the
  magic of the envelope in the buffer is not \<open>0x52424B53\<close>, or its version is not 1, or
  the length is smaller than the size of the header plus the compressed size, the load
  returns failure, sends no command to the emulator and leaves the input sequence counter,
  the buffer pool and every other part of the process as they were; only the load counter
  and timer of the performance metrics and the error message change. The message names
  the first check that failed.
\<close>

lemma load_rejects_malformed_envelope:
  assumes "0 \<le> len" and "len < 2 ^ 31"
    and "magic (RollbackStateHeader_of_mem (heap s buffer)) \<noteq> ROLLBACK_STATE_MAGIC \<or>
         version (RollbackStateHeader_of_mem (heap s buffer)) \<noteq> ROLLBACK_STATE_VERSION \<or>
         len < int sizeof_RollbackStateHeader +
                 uint (compressedSize (RollbackStateHeader_of_mem (heap s buffer)))"
  shows "let s' = snd (LoadEmulatorState h buffer len s)
         in \<not> fst (LoadEmulatorState h buffer len s) \<and>
            emu_commands s' = emu_commands s \<and>
            g_currentInputSequence s' = g_currentInputSequence s \<and>
            g_stateBufferPool s' = g_stateBufferPool s \<and>
            s'\<lparr>g_stateMetrics := g_stateMetrics s, core_error := core_error s\<rparr> = s \<and>
            g_stateMetrics s' = (g_stateMetrics s)
              \<lparr>totalLoadTimeNs := totalLoadTimeNs (g_stateMetrics s) + elapsed_ns h,
               loadCount := loadCount (g_stateMetrics s) + 1\<rparr> \<and>
            core_error s' =
              (if buffer = 0 \<or> len \<le> int sizeof_RollbackStateHeader
               then ''Invalid state buffer or size''
               else if magic (RollbackStateHeader_of_mem (heap s buffer)) \<noteq> ROLLBACK_STATE_MAGIC
               then ''Invalid state format (wrong magic number)''
               else if version (RollbackStateHeader_of_mem (heap s buffer)) \<noteq> ROLLBACK_STATE_VERSION
               then ''Unsupported state version''
               else ''State buffer is smaller than expected'')"
proof -
  have conv: "int_to_size_t len = nat len"
    using assms(1,2) by (rule int_to_size_t_nonneg)
  have le: "nat len \<le> sizeof_RollbackStateHeader \<longleftrightarrow> len \<le> int sizeof_RollbackStateHeader"
    by (rule nat_le_iff)
  have "unat (compressedSize (RollbackStateHeader_of_mem (heap s buffer)))
          + sizeof_RollbackStateHeader > nat len"
    if "len < int sizeof_RollbackStateHeader +
                 uint (compressedSize (RollbackStateHeader_of_mem (heap s buffer)))"
    using assms(1) that by (rule length_below_payload_end)
  with assms(3) have bad:
    "buffer = 0 \<or> int_to_size_t len \<le> sizeof_RollbackStateHeader \<or>
     magic (RollbackStateHeader_of_mem (heap s buffer)) \<noteq> ROLLBACK_STATE_MAGIC \<or>
     version (RollbackStateHeader_of_mem (heap s buffer)) \<noteq> ROLLBACK_STATE_VERSION \<or>
     unat (compressedSize (RollbackStateHeader_of_mem (heap s buffer)))
       + sizeof_RollbackStateHeader > int_to_size_t len"
    unfolding conv by (elim disjE) simp_all
  note eq = LoadEmulatorState_rejected [OF bad, of h]
  let ?s' = "snd (LoadEmulatorState h buffer len s)"
  have r: "\<not> fst (LoadEmulatorState h buffer len s)"
    by (simp only: eq fst_conv not_False_eq_True)
  have cmds: "emu_commands ?s' = emu_commands s"
    and seq: "g_currentInputSequence ?s' = g_currentInputSequence s"
    and pool: "g_stateBufferPool ?s' = g_stateBufferPool s"
    and met: "g_stateMetrics ?s' = (g_stateMetrics s)
              \<lparr>totalLoadTimeNs := totalLoadTimeNs (g_stateMetrics s) + elapsed_ns h,
               loadCount := loadCount (g_stateMetrics s) + 1\<rparr>"
    and rest: "?s'\<lparr>g_stateMetrics := g_stateMetrics s, core_error := core_error s\<rparr> = s"
    unfolding eq snd_conv by (simp_all add: stop_load_timer_def CoreSetError_def)
  have err: "core_error ?s' =
              (if buffer = 0 \<or> len \<le> int sizeof_RollbackStateHeader
               then ''Invalid state buffer or size''
               else if magic (RollbackStateHeader_of_mem (heap s buffer)) \<noteq> ROLLBACK_STATE_MAGIC
               then ''Invalid state format (wrong magic number)''
               else if version (RollbackStateHeader_of_mem (heap s buffer)) \<noteq> ROLLBACK_STATE_VERSION
               then ''Unsupported state version''
               else ''State buffer is smaller than expected'')"
    unfolding eq snd_conv conv le
    by (simp add: stop_load_timer_def CoreSetError_def split del: if_split)
  show ?thesis
    unfolding Let_def by (intro conjI r cmds seq pool rest met err)
qed

lemma load_rejects_zero_magic:
  "magic (RollbackStateHeader_of_mem (heap (process_start 1) 1)) = 0 \<and>
   \<not> fst (LoadEmulatorState host_small 1 100 (process_start 1)) \<and>
   emu_commands (snd (LoadEmulatorState host_small 1 100 (process_start 1))) = [] \<and>
   g_currentInputSequence (snd (LoadEmulatorState host_small 1 100 (process_start 1))) = 0 \<and>
   core_error (snd (LoadEmulatorState host_small 1 100 (process_start 1))) =
     ''Invalid state format (wrong magic number)''"
proof -
  have zero: "magic (RollbackStateHeader_of_mem (heap (process_start 1) 1)) = 0"
    by (simp add: RollbackStateHeader_of_mem_def rd32_def process_start_def)
  then have bad: "magic (RollbackStateHeader_of_mem (heap (process_start 1) 1)) \<noteq> ROLLBACK_STATE_MAGIC \<or>
         version (RollbackStateHeader_of_mem (heap (process_start 1) 1)) \<noteq> ROLLBACK_STATE_VERSION \<or>
         100 < int sizeof_RollbackStateHeader +
                 uint (compressedSize (RollbackStateHeader_of_mem (heap (process_start 1) 1)))"
    by (simp add: ROLLBACK_STATE_MAGIC_def)
  have start: "emu_commands (process_start 1) = []" "g_currentInputSequence (process_start 1) = 0"
    by (simp_all add: process_start_def)
  have nonneg: "(0::int) \<le> 100" and fits: "(100::int) < 2 ^ 31"
    by simp_all
  note rejected = load_rejects_malformed_envelope [OF nonneg fits bad, of host_small, unfolded Let_def]
  have err: "core_error (snd (LoadEmulatorState host_small 1 100 (process_start 1))) =
     ''Invalid state format (wrong magic number)''"
    using rejected zero by (simp add: ROLLBACK_STATE_MAGIC_def sizeof_RollbackStateHeader_def)
  from rejected zero start err show ?thesis
    by simp
qed






end
